theory Spec2Isabelle
  imports Complex_Main
begin

section \<open>The command line of pvtm.py\<close>

text \<open>
  The script declares sixteen options with \<^verbatim>\<open>ap.add_argument\<close> and keeps
  \<^verbatim>\<open>args = vars(ap.parse_args())\<close>, a dictionary from destination names to values.
  A value is what argparse stores: the declared default (a Python int, float, str or list), or
  the raw string of the command line, converted only where \<^verbatim>\<open>type=int\<close> is declared.
\<close>

datatype argval = VNone | VStr string | VInt int | VFloat real | VList "argval list"

datatype nargs_spec = NargsOne | NargsN nat | NargsPlus

record argument =
  option_strings :: "string list"
  default_val :: argval
  required :: bool
  nargs :: nargs_spec
  type_int :: bool

definition arg :: "string list \<Rightarrow> argval \<Rightarrow> argument" where
  "arg flags d =
     \<lparr>option_strings = flags, default_val = d, required = False, nargs = NargsOne, type_int = False\<rparr>"

text \<open>The declarations, in the order of the source (lines 12 to 52).\<close>

definition ap_arguments :: "argument list" where
  "ap_arguments =
    [ (arg [''-i'', ''--input''] VNone) \<lparr>required := True\<rparr>,
      arg [''-o'', ''--output''] (VStr ''./Output''),
      arg [''-l'', ''--language''] (VStr ''en''),
      arg [''-d2vp'', ''--d2v-model''] (VStr ''''),
      arg [''-gmmp'', ''--gmm-model''] (VStr ''''),
      arg [''-e'', ''--epochs''] (VInt 10),
      arg [''-d'', ''--dimension''] (VInt 100),
      arg [''-lt'', ''--lemmathreads''] (VInt (- 1)),
      arg [''-lbs'', ''--lemmabatchsize''] (VInt 300),
      arg [''-vmin'', ''--vectorizermin''] (VInt 4),
      arg [''-vmax'', ''--vectorizermax''] (VFloat (1 / 2)),
      arg [''-gv'', ''--gmmverbose''] (VInt 1),
      arg [''-gi'', ''--gmmninits''] (VInt 2),
      (arg [''-gr'', ''--gmmrange''] (VList [VInt 10, VInt 40, VInt 4]))
         \<lparr>nargs := NargsN 3, type_int := True\<rparr>,
      (arg [''-gcv'', ''--gmmcvtypes''] (VList [VStr ''spherical'', VStr ''diag'', VStr ''tied'']))
         \<lparr>nargs := NargsPlus\<rparr>,
      arg [''-ntp'', ''--numtopicwords''] (VInt 50) ]"

text \<open>
  argparse derives the destination of an optional argument from its first long option string
  (one whose first two characters are both prefix characters), or from the first option string
  when there is none: the leading dashes are stripped and every remaining dash becomes an
  underscore.
\<close>

fun lstrip_dash :: "string \<Rightarrow> string" where
  "lstrip_dash [] = []"
| "lstrip_dash (c # cs) = (if c = CHR ''-'' then lstrip_dash cs else c # cs)"

fun is_long_option :: "string \<Rightarrow> bool" where
  "is_long_option (a # b # cs) = (a = CHR ''-'' \<and> b = CHR ''-'')"
| "is_long_option cs = False"

definition dest_of :: "argument \<Rightarrow> string" where
  "dest_of a =
     (let dest_option_string =
            (case filter is_long_option (option_strings a) of
               l # ls \<Rightarrow> l
             | [] \<Rightarrow> (case option_strings a of s # ss \<Rightarrow> s | [] \<Rightarrow> []))
      in map (\<lambda>c. if c = CHR ''-'' then CHR ''_'' else c) (lstrip_dash dest_option_string))"

text \<open>
  The exceptions the script can end with. \<open>Unspecified\<close> is not one of them: it marks a run
  that hands a stage whose code is not at hand an argument its specification does not cover,
  so that the model does not follow the run any further and no theorem speaks about it.
\<close>

datatype error = SystemExit | KeyError string | TypeError | ValueError | AttributeError
  | Unspecified

text \<open>
  Python's \<^verbatim>\<open>int(s)\<close> on an ASCII string: optional surrounding whitespace (the
  characters 9 to 13 and 28 to 32, which are what \<^verbatim>\<open>str.isspace\<close> accepts below 128), an
  optional sign, decimal digits with single underscores between them. Command lines are taken
  to be ASCII throughout.
\<close>

definition digit_of :: "char \<Rightarrow> nat option" where
  "digit_of c = (let n = (of_char c :: nat) in if 48 \<le> n \<and> n \<le> 57 then Some (n - 48) else None)"

fun digits :: "nat \<Rightarrow> bool \<Rightarrow> string \<Rightarrow> nat option" where
  "digits acc after_digit [] = (if after_digit then Some acc else None)"
| "digits acc after_digit (c # cs) =
     (if c = CHR ''_'' then (if after_digit \<and> cs \<noteq> [] then digits acc False cs else None)
      else (case digit_of c of None \<Rightarrow> None | Some d \<Rightarrow> digits (10 * acc + d) True cs))"

definition is_space :: "char \<Rightarrow> bool" where
  "is_space c = (let n = (of_char c :: nat) in (9 \<le> n \<and> n \<le> 13) \<or> (28 \<le> n \<and> n \<le> 32))"

definition strip_blanks :: "string \<Rightarrow> string" where
  "strip_blanks s = rev (dropWhile is_space (rev (dropWhile is_space s)))"

definition py_int :: "string \<Rightarrow> int option" where
  "py_int s =
     (case strip_blanks s of
        [] \<Rightarrow> None
      | c # cs \<Rightarrow>
          if c = CHR ''-'' then map_option (\<lambda>n. - int n) (digits 0 False cs)
          else if c = CHR ''+'' then map_option int (digits 0 False cs)
          else map_option int (digits 0 False (c # cs)))"

text \<open>
  The command line is taken as argparse's tokeniser leaves it: a list of option strings, each
  with the values that follow it. (How abbreviations, \<^verbatim>\<open>--opt=value\<close> and attached short
  values are resolved to a declared option string is argparse's own business and is not
  modelled.) Any error ends the process with exit status 2.
\<close>

type_synonym cmdline = "(string \<times> string list) list"
type_synonym dict = "string \<rightharpoonup> argval"

definition find_action :: "string \<Rightarrow> argument option" where
  "find_action flag = find (\<lambda>a. List.member (option_strings a) flag) ap_arguments"

definition convert_one :: "argument \<Rightarrow> string \<Rightarrow> error + argval" where
  "convert_one a s =
     (if type_int a then (case py_int s of None \<Rightarrow> Inl SystemExit | Some i \<Rightarrow> Inr (VInt i))
      else Inr (VStr s))"

fun convert_all :: "argument \<Rightarrow> string list \<Rightarrow> error + argval list" where
  "convert_all a [] = Inr []"
| "convert_all a (s # ss) =
     (case convert_one a s of
        Inl e \<Rightarrow> Inl e
      | Inr v \<Rightarrow> (case convert_all a ss of Inl e \<Rightarrow> Inl e | Inr vs \<Rightarrow> Inr (v # vs)))"

definition convert :: "argument \<Rightarrow> string list \<Rightarrow> error + argval" where
  "convert a vals =
     (case nargs a of
        NargsOne \<Rightarrow> (case vals of [s] \<Rightarrow> convert_one a s | _ \<Rightarrow> Inl SystemExit)
      | NargsN n \<Rightarrow>
          if length vals = n
          then (case convert_all a vals of Inl e \<Rightarrow> Inl e | Inr vs \<Rightarrow> Inr (VList vs))
          else Inl SystemExit
      | NargsPlus \<Rightarrow>
          if vals \<noteq> []
          then (case convert_all a vals of Inl e \<Rightarrow> Inl e | Inr vs \<Rightarrow> Inr (VList vs))
          else Inl SystemExit)"

definition namespace_defaults :: dict where
  "namespace_defaults = fold (\<lambda>a ns. ns(dest_of a \<mapsto> default_val a)) ap_arguments Map.empty"

fun parse_options :: "cmdline \<Rightarrow> dict \<Rightarrow> error + dict" where
  "parse_options [] ns = Inr ns"
| "parse_options ((flag, vals) # rest) ns =
     (case find_action flag of
        None \<Rightarrow> Inl SystemExit
      | Some a \<Rightarrow>
          (case convert a vals of
             Inl e \<Rightarrow> Inl e
           | Inr v \<Rightarrow> parse_options rest (ns(dest_of a \<mapsto> v))))"

definition missing_required :: "cmdline \<Rightarrow> bool" where
  "missing_required cl =
     list_ex (\<lambda>a. required a \<and> \<not> list_ex (\<lambda>fv. List.member (option_strings a) (fst fv)) cl)
       ap_arguments"

definition parse_args :: "cmdline \<Rightarrow> error + dict" where
  "parse_args cl =
     (case parse_options cl namespace_defaults of
        Inl e \<Rightarrow> Inl e
      | Inr ns \<Rightarrow> if missing_required cl then Inl SystemExit else Inr ns)"

definition has_key :: "dict \<Rightarrow> string \<Rightarrow> bool" where
  "has_key d k = (d k \<noteq> None)"


section \<open>Data\<close>

type_synonym vec = "real list"
type_synonym matrix = "vec list"

text \<open>
  The embedding model (gensim's Doc2Vec, an external collaborator): the document vectors, the
  vocabulary in its stored order with one vector per word, and the model's similarity measure.
\<close>

record doc2vec_model =
  docvecs :: matrix
  wv_vocab :: "(string \<times> vec) list"
  similarity :: "vec \<Rightarrow> vec \<Rightarrow> real"

text \<open>
  A fitted mixture (scikit-learn's GaussianMixture, an external collaborator): its component
  means (the attribute \<^verbatim>\<open>means_\<close>), the posterior over components of one vector, and its
  BIC on a data set.
\<close>

record gmm =
  n_components :: nat
  covariance_type :: string
  means :: matrix
  predict_proba :: "vec \<Rightarrow> real list"
  bic_score :: "matrix \<Rightarrow> real"

text \<open>
  The document table \<^verbatim>\<open>out\<close>: one row per document with its tokens; the three gmm columns
  exist once topics have been assigned.
\<close>

record assigned_document =
  doc_text :: "string list"
  gmm_topics :: "real list"
  gmm_top_topic :: nat
  gmm_probas :: real

datatype documents = Unassigned "string list list" | Assigned "assigned_document list"

fun texts_of :: "documents \<Rightarrow> string list list" where
  "texts_of (Unassigned ts) = ts"
| "texts_of (Assigned ds) = map doc_text ds"

text \<open>
  A pandas DataFrame with the default index 0, 1, 2, ...: column labels and rows of cells.
  \<^verbatim>\<open>to_csv\<close> writes the index as the first field of every row (its default
  \<^verbatim>\<open>index=True\<close>, which the script never overrides) and, unless \<^verbatim>\<open>header=False\<close>, a
  header row whose first field, the index label, is empty.
\<close>

datatype label = Name string | Pos nat

record 'c dataframe =
  columns :: "label list"
  rows :: "'c list list"

datatype 'c field = Index nat | Value 'c

record 'c csv_file =
  sep :: char
  header :: "label list option"
  body :: "'c field list list"

definition to_csv :: "'c dataframe \<Rightarrow> char \<Rightarrow> bool \<Rightarrow> 'c csv_file" where
  "to_csv df s h =
     \<lparr>sep = s,
      header = (if h then Some (Name '''' # columns df) else None),
      body = map (\<lambda>(i, r). Index i # map Value r) (enumerate 0 (rows df))\<rparr>"

text \<open>The values of a written table, row by row, without the index fields.\<close>

definition csv_values :: "'c csv_file \<Rightarrow> 'c list list" where
  "csv_values f =
     map (\<lambda>row. concat (map (\<lambda>x. case x of Index i \<Rightarrow> [] | Value v \<Rightarrow> [v]) row)) (body f)"

definition ncols :: "'a list list \<Rightarrow> nat" where
  "ncols m = (case m of [] \<Rightarrow> 0 | r # rs \<Rightarrow> length r)"

definition DataFrame :: "'a list list \<Rightarrow> 'a dataframe" where
  "DataFrame m = \<lparr>columns = map Pos [0..<ncols m], rows = m\<rparr>"

text \<open>A DataFrame built from rows of unequal length pads the short rows.\<close>

definition DataFrame_ragged :: "'a \<Rightarrow> 'a list list \<Rightarrow> 'a dataframe" where
  "DataFrame_ragged pad rs =
     (let w = fold max (map length rs) 0
      in \<lparr>columns = map Pos [0..<w], rows = map (\<lambda>r. r @ replicate (w - length r) pad) rs\<rparr>)"

definition set_columns :: "'c dataframe \<Rightarrow> label list \<Rightarrow> error + 'c dataframe" where
  "set_columns df names =
     (if length names = length (columns df) then Inr (df\<lparr>columns := names\<rparr>) else Inl ValueError)"

text \<open>The cells of the topic table: a tuple of words, of counts, of scores or of indices.\<close>

datatype cell = Words "string list" | Counts "nat list" | Scores "real list" | Indices "nat list" | NaN

text \<open>
  \<^verbatim>\<open>left.join(right)\<close>: a left join on the index; overlapping column names raise.
\<close>

definition df_join :: "cell dataframe \<Rightarrow> cell dataframe \<Rightarrow> error + cell dataframe" where
  "df_join l r =
     (if list_ex (\<lambda>c. List.member (columns r) c) (columns l) then Inl ValueError
      else Inr \<lparr>columns = columns l @ columns r,
                rows = map (\<lambda>(i, row).
                         row @ (if i < length (rows r) then rows r ! i
                                else replicate (length (columns r)) NaN))
                       (enumerate 0 (rows l))\<rparr>)"

text \<open>\<^verbatim>\<open>np.append(a, b, axis=0)\<close> builds a new array; the row lengths must agree.\<close>

definition np_append :: "matrix \<Rightarrow> matrix \<Rightarrow> error + matrix" where
  "np_append a b = (if ncols a = ncols b then Inr (a @ b) else Inl ValueError)"

fun join_sp :: "string list \<Rightarrow> string" where
  "join_sp [] = []"
| "join_sp [w] = w"
| "join_sp (w # ws) = w @ CHR '' '' # join_sp ws"

definition and_then :: "error + 'a \<Rightarrow> ('a \<Rightarrow> error + 'b) \<Rightarrow> error + 'b" where
  "and_then r f = (case r of Inl e \<Rightarrow> Inl e | Inr x \<Rightarrow> f x)"

definition lookup :: "dict \<Rightarrow> string \<Rightarrow> error + argval" where
  "lookup d k = (case d k of None \<Rightarrow> Inl (KeyError k) | Some v \<Rightarrow> Inr v)"

fun lookups :: "dict \<Rightarrow> string list \<Rightarrow> error + argval list" where
  "lookups d [] = Inr []"
| "lookups d (k # ks) =
     and_then (lookup d k) (\<lambda>v. and_then (lookups d ks) (\<lambda>vs. Inr (v # vs)))"

text \<open>
  A value used as a path prefix. (\<^verbatim>\<open>parse_args\<close> only ever stores a str under these
  keys; any other value is reported as a TypeError, which is what \<^verbatim>\<open>+\<close> would raise.)
\<close>

definition lookup_str :: "dict \<Rightarrow> string \<Rightarrow> error + string" where
  "lookup_str d k =
     and_then (lookup d k) (\<lambda>v. case v of VStr s \<Rightarrow> Inr s | _ \<Rightarrow> Inl TypeError)"


section \<open>The stages called by the script\<close>

text \<open>
  The modules \<^verbatim>\<open>clustering\<close> and \<^verbatim>\<open>pvtm_utils\<close> are imported by the script but
  their files are not part of the sources at hand; the functions the script calls are modelled
  from the specification, each marked as such.
\<close>

text \<open>\<^verbatim>\<open>range(start, end, step)\<close>; a zero step raises.\<close>

definition py_range :: "int \<Rightarrow> int \<Rightarrow> int \<Rightarrow> error + int list" where
  "py_range start stop step =
     (if step = 0 then Inl ValueError
      else if 0 < step
        then Inr (map (\<lambda>i. start + int i * step) [0..<nat ((stop - start + step - 1) div step)])
        else Inr (map (\<lambda>i. start + int i * step) [0..<nat ((start - stop - step - 1) div (- step))]))"

fun lowest_bic :: "matrix \<Rightarrow> gmm list \<Rightarrow> gmm option" where
  "lowest_bic X [] = None"
| "lowest_bic X (m # ms) =
     (case lowest_bic X ms of
        None \<Rightarrow> Some m
      | Some b \<Rightarrow> if bic_score b X < bic_score m X then Some b else Some m)"

type_synonym fit = "matrix \<Rightarrow> string \<Rightarrow> int \<Rightarrow> nat \<Rightarrow> gmm option"

definition fit_cell :: "fit \<Rightarrow> matrix \<Rightarrow> string \<Rightarrow> int \<Rightarrow> nat \<Rightarrow> gmm option" where
  "fit_cell fit X cv k restarts = lowest_bic X (List.map_filter (\<lambda>r. fit X cv k r) [0..<restarts])"

definition better :: "matrix \<Rightarrow> nat \<times> int \<times> gmm \<Rightarrow> nat \<times> int \<times> gmm \<Rightarrow> bool" where
  "better X c b =
     (case c of (fc, kc, mc) \<Rightarrow> case b of (fb, kb, mb) \<Rightarrow>
        bic_score mc X < bic_score mb X \<or>
        (bic_score mc X = bic_score mb X \<and> (kc < kb \<or> (kc = kb \<and> fc < fb))))"

fun best_cell :: "matrix \<Rightarrow> (nat \<times> int \<times> gmm) list \<Rightarrow> (nat \<times> int \<times> gmm) option" where
  "best_cell X [] = None"
| "best_cell X (c # cs) =
     (case best_cell X cs of
        None \<Rightarrow> Some c
      | Some b \<Rightarrow> if better X b c then Some b else Some c)"

definition grid_cells :: "string list \<Rightarrow> int list \<Rightarrow> (nat \<times> string \<times> int) list" where
  "grid_cells cvs ks = concat (map (\<lambda>(fi, cv). map (\<lambda>k. (fi, cv, k)) ks) (enumerate 0 cvs))"

text \<open>
  Modelled from the spec: \<^verbatim>\<open>clustering.optimize_gmm_components\<close> (the spec's
  \<^verbatim>\<open>select_model\<close>, section 4.1). For every covariance family and every component count of
  the range, \<^verbatim>\<open>restarts\<close> mixtures are fitted and the one of lowest BIC is the cell's; a
  failed fit (\<open>None\<close>) is skipped, and a cell with no fit has a missing score. The best model is
  the cell of lowest BIC; equal scores prefer the smaller component count, then the family
  listed earlier. The fit itself is scikit-learn's and is a parameter; BIC scores are taken
  as real numbers.
\<close>

definition optimize_gmm_components ::
  "fit \<Rightarrow> matrix \<Rightarrow> int \<times> int \<times> int \<Rightarrow> string list \<Rightarrow> nat \<Rightarrow>
     error + (gmm option \<times> (string \<times> int \<times> real option) list)" where
  "optimize_gmm_components fit X gmmrange cvs restarts =
     (case gmmrange of (start, stop, step) \<Rightarrow>
        and_then (py_range start stop step) (\<lambda>ks.
          let fitted = map (\<lambda>(fi, cv, k). (fi, cv, k, fit_cell fit X cv k restarts)) (grid_cells cvs ks);
              table = map (\<lambda>(fi, cv, k, c). (cv, k, map_option (\<lambda>m. bic_score m X) c)) fitted;
              best = best_cell X
                       (List.map_filter (\<lambda>(fi, cv, k, c). map_option (\<lambda>m. (fi, k, m)) c) fitted)
          in Inr (map_option (\<lambda>(fi, k, m). m) best, table)))"

text \<open>The first index of the largest entry and that entry, as \<^verbatim>\<open>argmax\<close> and \<^verbatim>\<open>max\<close> give them.\<close>

fun argmax_from :: "nat \<Rightarrow> nat \<Rightarrow> real \<Rightarrow> real list \<Rightarrow> nat \<times> real" where
  "argmax_from i bi bv [] = (bi, bv)"
| "argmax_from i bi bv (x # xs) =
     (if bv < x then argmax_from (Suc i) i x xs else argmax_from (Suc i) bi bv xs)"

definition argmax :: "real list \<Rightarrow> (nat \<times> real) option" where
  "argmax p = (case p of [] \<Rightarrow> None | x # xs \<Rightarrow> Some (argmax_from 1 0 x xs))"

fun assign_rows :: "gmm \<Rightarrow> (string list \<times> vec) list \<Rightarrow> error + assigned_document list" where
  "assign_rows clf [] = Inr []"
| "assign_rows clf ((t, v) # rest) =
     (case argmax (predict_proba clf v) of
        None \<Rightarrow> Inl ValueError
      | Some (k, p) \<Rightarrow>
          and_then (assign_rows clf rest) (\<lambda>ds.
            Inr (\<lparr>doc_text = t, gmm_topics = predict_proba clf v, gmm_top_topic = k, gmm_probas = p\<rparr>
                   # ds)))"

text \<open>
  Modelled from the spec: \<^verbatim>\<open>clustering.add_gmm_probas_to_out\<close> (the assignment half of the
  spec's \<^verbatim>\<open>assign_topics\<close>, section 4.2). Every document gets its probability vector, the
  arg-max topic and that topic's probability; the second result is the number of topics.
\<close>

definition add_gmm_probas_to_out ::
  "string list list \<Rightarrow> matrix \<Rightarrow> gmm \<Rightarrow> error + (assigned_document list \<times> nat)" where
  "add_gmm_probas_to_out texts X clf =
     (if length texts \<noteq> length X then Inl ValueError
      else and_then (assign_rows clf (zip texts X)) (\<lambda>ds. Inr (ds, n_components clf)))"

definition vadd :: "vec \<Rightarrow> vec \<Rightarrow> vec" where
  "vadd u v = map2 (+) u v"

definition mean_vec :: "nat \<Rightarrow> vec list \<Rightarrow> vec" where
  "mean_vec d vs =
     (if vs = [] then replicate d 0
      else map (\<lambda>x. x / real (length vs)) (fold vadd vs (replicate d 0)))"

definition members :: "nat \<Rightarrow> assigned_document list \<Rightarrow> matrix \<Rightarrow> vec list" where
  "members t ds X = map snd (filter (\<lambda>dv. gmm_top_topic (fst dv) = t) (zip ds X))"

text \<open>
  Modelled from the spec: \<^verbatim>\<open>clustering.get_gmm_cluster_center\<close> (the center half of
  \<^verbatim>\<open>assign_topics\<close>, section 4.2): per topic, the arithmetic mean of the vectors of the
  documents whose hard assignment is that topic; a topic with no document gets the all-zero
  vector.
\<close>

definition get_gmm_cluster_center :: "nat \<Rightarrow> assigned_document list \<Rightarrow> matrix \<Rightarrow> matrix" where
  "get_gmm_cluster_center K ds X = map (\<lambda>t. mean_vec (ncols X) (members t ds X)) [0..<K]"

definition lower_char :: "char \<Rightarrow> char" where
  "lower_char c = (let n = (of_char c :: nat) in if 65 \<le> n \<and> n \<le> 90 then char_of (n + 32) else c)"

definition is_stopword :: "string list \<Rightarrow> string \<Rightarrow> bool" where
  "is_stopword stopwords w = List.member (map (map lower_char) stopwords) (map lower_char w)"

fun bump :: "string \<Rightarrow> (string \<times> nat) list \<Rightarrow> (string \<times> nat) list" where
  "bump w [] = [(w, 1)]"
| "bump w ((v, n) # rest) = (if v = w then (v, Suc n) # rest else (v, n) # bump w rest)"

definition count_tokens :: "string list \<Rightarrow> (string \<times> nat) list" where
  "count_tokens ws = fold bump ws []"

definition most_frequent_words :: "string list \<Rightarrow> string list \<Rightarrow> nat \<Rightarrow> (string \<times> nat) list" where
  "most_frequent_words tokens stopwords num_words =
     take num_words
       (sort_key (\<lambda>p. - int (snd p))
          (count_tokens (filter (\<lambda>w. \<not> is_stopword stopwords w) tokens)))"

definition topic_documents :: "nat \<Rightarrow> assigned_document list \<Rightarrow> assigned_document list" where
  "topic_documents t ds = filter (\<lambda>d. gmm_top_topic d = t) ds"

text \<open>
  Modelled from the spec: \<^verbatim>\<open>pvtm_utils.get_all_topics_from_centers\<close> (part (a) of the
  spec's \<^verbatim>\<open>label_topics\<close>, section 4.3). For every topic the tokens of its documents are
  counted, stopwords dropped (case-insensitively), and the \<^verbatim>\<open>num_words\<close> most frequent kept,
  ties in first-occurrence order, never padded. The result is a DataFrame with one row per
  topic, so shorter rows are filled with None; the second result is each topic's documents.
\<close>

definition get_all_topics_from_centers ::
  "matrix \<Rightarrow> assigned_document list \<Rightarrow> string list \<Rightarrow> nat \<Rightarrow>
     (string \<times> nat) option dataframe \<times> assigned_document list list" where
  "get_all_topics_from_centers center ds stopwords num_words =
     (DataFrame_ragged None
        (map (\<lambda>t. map Some
                (most_frequent_words (concat (map doc_text (topic_documents t ds))) stopwords num_words))
           [0..<length center]),
      map (\<lambda>t. topic_documents t ds) [0..<length center])"

definition top_k :: "nat \<Rightarrow> ('a \<times> real) list \<Rightarrow> ('a \<times> real) list" where
  "top_k k scored = take k (sort_key (\<lambda>p. - snd p) scored)"

definition most_similar_words :: "doc2vec_model \<Rightarrow> vec \<Rightarrow> nat \<Rightarrow> (string \<times> real) list" where
  "most_similar_words m c k = top_k k (map (\<lambda>(w, v). (w, similarity m c v)) (wv_vocab m))"

definition most_similar_docs :: "doc2vec_model \<Rightarrow> vec \<Rightarrow> nat \<Rightarrow> (nat \<times> real) list" where
  "most_similar_docs m c k =
     top_k k (map (\<lambda>(i, v). (i, similarity m c v)) (enumerate 0 (docvecs m)))"

text \<open>
  Modelled from the spec: \<^verbatim>\<open>pvtm_utils.get_most_similar_words_and_docs\<close> (parts (b) and
  (c) of \<^verbatim>\<open>label_topics\<close>, section 4.3): per center, the \<^verbatim>\<open>num_words\<close> vocabulary words
  and the \<^verbatim>\<open>num_docs\<close> documents most similar to it, by descending score, ties by index;
  the columns are those of section 6.
\<close>

definition get_most_similar_words_and_docs ::
  "matrix \<Rightarrow> doc2vec_model \<Rightarrow> nat \<Rightarrow> nat \<Rightarrow> cell dataframe" where
  "get_most_similar_words_and_docs center m num_words num_docs =
     \<lparr>columns = [Name ''sim_words'', Name ''sim_words_prob'', Name ''sim_docs_indx'',
                 Name ''sim_docs_prob''],
      rows = map (\<lambda>c. let ws = most_similar_words m c num_words;
                          ds = most_similar_docs m c num_docs
                      in [Words (map fst ws), Scores (map snd ws),
                          Indices (map fst ds), Scores (map snd ds)])
               center\<rparr>"


section \<open>The script\<close>

text \<open>
  What the script reads from \<^verbatim>\<open>args\<close> for the stages. The range and the families are
  lists as argparse builds them. The counts (\<^verbatim>\<open>gmmninits\<close>, \<^verbatim>\<open>numtopicwords\<close>) are the
  declared int by default and the raw string when given on the command line, since no
  \<^verbatim>\<open>type=\<close> is declared for them, and the script passes them on as they are (lines 130
  and 198). The stages are specified over counts: the int default reaches them as that count;
  what the stages do with any other value the sources do not say, and the run is not
  followed (\<open>Unspecified\<close>).
\<close>

fun as_range :: "argval \<Rightarrow> error + int \<times> int \<times> int" where
  "as_range (VList [VInt a, VInt b, VInt c]) = Inr (a, b, c)"
| "as_range v = Inl TypeError"

fun as_strs :: "argval list \<Rightarrow> error + string list" where
  "as_strs [] = Inr []"
| "as_strs (VStr s # vs) = and_then (as_strs vs) (\<lambda>ss. Inr (s # ss))"
| "as_strs (v # vs) = Inl TypeError"

fun as_families :: "argval \<Rightarrow> error + string list" where
  "as_families (VList vs) = as_strs vs"
| "as_families v = Inl TypeError"

fun as_count :: "argval \<Rightarrow> error + nat" where
  "as_count (VInt n) = (if 0 \<le> n then Inr (nat n) else Inl Unspecified)"
| "as_count v = Inl Unspecified"

text \<open>
  The collaborators outside the repository's clustering and labeling code: the Doc2Vec
  trainer and loader, the loaders of persisted tables and models, the stopword generator
  (language detection) and scikit-learn's mixture fit. Each is a parameter.
\<close>

record env =
  run_script :: "argval list \<Rightarrow> string list list \<times> doc2vec_model"
  Doc2Vec_load :: "string \<Rightarrow> doc2vec_model"
  load_document_dataframe :: "string \<Rightarrow> assigned_document list"
  load_topics_dataframe :: "string \<Rightarrow> cell dataframe"
  joblib_load :: "string \<Rightarrow> gmm"
  get_all_stopwords :: "string \<Rightarrow> string list \<times> string"
  GaussianMixture_fit :: fit

datatype event =
    TrainedDoc2Vec
  | LoadedDoc2Vec string
  | LoadedDocuments string
  | LoadedTopics string
  | LoadedGMM string
  | FittedGMM

datatype artifact =
    MatrixCSV "real csv_file"
  | TopicTuplesCSV "(string \<times> nat) option csv_file"
  | TopicsCSV "cell csv_file"
  | DocumentsCSV "assigned_document list"
  | Pickle gmm

text \<open>
  The script's module-level variables after a run, the files it has written (by path) and
  the record of which models were trained, fitted or loaded. A variable bound only inside the
  clustering block is \<open>None\<close> while unbound. (The plots and the printed lines are left out.)
\<close>

record globals =
  args :: dict
  out :: documents
  model :: doc2vec_model
  topics :: "cell dataframe option"
  clf :: "gmm option"
  vectors :: matrix
  stopwordssss :: "string list"
  LANGUAGE :: string
  bic :: "(string \<times> int \<times> real option) list option"
  gmm_center :: "matrix option"
  vectors_with_center :: "matrix option"
  GMM_N_COMPONENTS :: "nat option"
  center :: "matrix option"
  simsdf :: "cell dataframe option"
  files :: "string \<rightharpoonup> artifact"
  events :: "event list"

type_synonym loaded =
  "documents \<times> doc2vec_model \<times> cell dataframe option \<times> gmm option \<times> event list"

text \<open>Lines 85 to 109: train a new Doc2Vec model, or load the persisted models.\<close>

definition load_block :: "env \<Rightarrow> dict \<Rightarrow> error + loaded" where
  "load_block e a =
     (if \<not> has_key a ''d2v-model'' then
        and_then (lookup a ''input'') (\<lambda>input.
        and_then (lookup_str a ''output'') (\<lambda>output.
        and_then (lookups a [''epochs'', ''dimension'', ''language'', ''vectorizermax'',
                             ''vectorizermin'', ''lemmathreads'', ''lemmabatchsize'']) (\<lambda>rest.
          case run_script e ([input, VStr (output @ ''/Doc2Vec.model''),
                              VStr (output @ ''/documents.csv'')] @ rest) of
            (out0, model0) \<Rightarrow> Inr (Unassigned out0, model0, None, None, [TrainedDoc2Vec]))))
      else
        and_then (lookup_str a ''d2v-model'') (\<lambda>d2v.
        and_then (lookup_str a ''output'') (\<lambda>output.
          let model0 = Doc2Vec_load e (d2v @ ''/doc2vec.model'');
              out0 = Assigned (load_document_dataframe e (output @ ''/documents.csv''));
              ev = [LoadedDoc2Vec (d2v @ ''/doc2vec.model''),
                    LoadedDocuments (output @ ''/documents.csv'')]
          in if has_key a ''gmm-model'' then
               and_then (lookup_str a ''gmm-model'') (\<lambda>gp.
                 Inr (out0, model0,
                      Some (load_topics_dataframe e (output @ ''/topics.csv'')),
                      Some (joblib_load e (gp @ ''/gmm.pkl'')),
                      ev @ [LoadedTopics (output @ ''/topics.csv''), LoadedGMM (gp @ ''/gmm.pkl'')]))
             else Inr (out0, model0, None, None, ev))))"

text \<open>
  Lines 111 to 120: the document vectors are taken from the model and written to
  \<^verbatim>\<open>vectors.tsv\<close>; the stopwords come from the first hundred vocabulary words.
\<close>

definition vectors_block :: "env \<Rightarrow> dict \<Rightarrow> loaded \<Rightarrow> error + globals" where
  "vectors_block e a l =
     (case l of (out0, model0, topics0, clf0, ev) \<Rightarrow>
        and_then (lookup_str a ''output'') (\<lambda>output.
          let vectors0 = docvecs model0;
              vocab = map fst (wv_vocab model0)
          in case get_all_stopwords e (join_sp (take 100 vocab)) of
               (sw, lang) \<Rightarrow>
                 Inr \<lparr>args = a, out = out0, model = model0, topics = topics0, clf = clf0,
                      vectors = vectors0, stopwordssss = sw, LANGUAGE = lang, bic = None,
                      gmm_center = None, vectors_with_center = None, GMM_N_COMPONENTS = None,
                      center = None, simsdf = None,
                      files = [output @ ''/vectors.tsv'' \<mapsto>
                                 MatrixCSV (to_csv (DataFrame vectors0) (CHR 0x09) False)],
                      events = ev\<rparr>))"

text \<open>
  Line 202: every None cell becomes the pair of the empty word and the count 0, and each
  row of pairs is unzipped into a tuple of words and a tuple of counts.
\<close>

definition unpack_row :: "(string \<times> nat) option list \<Rightarrow> cell list" where
  "unpack_row topic =
     (let pairs = map (\<lambda>v. case v of None \<Rightarrow> ([], 0) | Some p \<Rightarrow> p) topic
      in if pairs = [] then [] else [Words (map fst pairs), Counts (map snd pairs)])"

definition unpack_topics :: "(string \<times> nat) option list list \<Rightarrow> cell dataframe" where
  "unpack_topics values = DataFrame_ragged NaN (map unpack_row values)"

text \<open>
  Lines 130 and 131: the grid is read from \<^verbatim>\<open>args\<close> and the best mixture selected;
  line 138 is the first use of \<^verbatim>\<open>clf\<close> and fails when no model was returned.
\<close>

definition select_block ::
  "env \<Rightarrow> globals \<Rightarrow> error + (gmm \<times> (string \<times> int \<times> real option) list)" where
  "select_block e g =
     and_then (lookup (args g) ''gmmrange'') (\<lambda>v1.
     and_then (lookup (args g) ''gmmcvtypes'') (\<lambda>v2.
     and_then (lookup (args g) ''gmmninits'') (\<lambda>v3.
     and_then (lookup (args g) ''gmmverbose'') (\<lambda>gmmverbose.
     and_then (as_range v1) (\<lambda>gmmrange.
     and_then (as_families v2) (\<lambda>gmmcvtypes.
     and_then (as_count v3) (\<lambda>gmmninits.
     and_then (optimize_gmm_components (GaussianMixture_fit e) (vectors g)
                 gmmrange gmmcvtypes gmmninits)
       (\<lambda>r. case fst r of None \<Rightarrow> Inl AttributeError | Some clf1 \<Rightarrow> Inr (clf1, snd r)))))))))"

text \<open>
  Lines 193 to 208: the topic centers, the frequent words of every topic (with the
  \<^verbatim>\<open>numtopicwords\<close> argument as target), the unpacking of line 202, the renaming of the two
  columns, and the join with the similar words and documents, whose targets are the literals
  30 and 30. The results are the centers, the labeler's table, the similarity table and the
  joined table.
\<close>

definition label_block ::
  "globals \<Rightarrow> assigned_document list \<Rightarrow> nat \<Rightarrow>
     error + (matrix \<times> (string \<times> nat) option dataframe \<times> cell dataframe \<times> cell dataframe)" where
  "label_block g out1 K =
     (let center1 = get_gmm_cluster_center K out1 (vectors g) in
      and_then (lookup (args g) ''numtopicwords'') (\<lambda>ntw.
      and_then (as_count ntw) (\<lambda>num_words.
        let topics1 = fst (get_all_topics_from_centers center1 out1 (stopwordssss g) num_words) in
        and_then (set_columns (unpack_topics (rows topics1))
                    [Name ''top_words'', Name ''top_words_count'']) (\<lambda>topics2.
          let simsdf1 = get_most_similar_words_and_docs center1 (model g) 30 30 in
          and_then (df_join topics2 simsdf1) (\<lambda>topics3.
            Inr (center1, topics1, simsdf1, topics3))))))"

text \<open>The bindings and the files the clustering block leaves behind.\<close>

definition store ::
  "globals \<Rightarrow> string \<Rightarrow> gmm \<Rightarrow> (string \<times> int \<times> real option) list \<Rightarrow> matrix \<Rightarrow>
     assigned_document list \<Rightarrow> nat \<Rightarrow>
     matrix \<times> (string \<times> nat) option dataframe \<times> cell dataframe \<times> cell dataframe \<Rightarrow> globals" where
  "store g output clf1 bic1 vwc out1 K lab =
     (case lab of (center1, topics1, simsdf1, topics3) \<Rightarrow>
        g\<lparr>clf := Some clf1, bic := Some bic1, gmm_center := Some (means clf1),
          vectors_with_center := Some vwc, out := Assigned out1,
          GMM_N_COMPONENTS := Some K, center := Some center1, simsdf := Some simsdf1,
          topics := Some topics3,
          files := (files g)
            (output @ ''/vectors_with_center.tsv'' \<mapsto>
               MatrixCSV (to_csv (DataFrame vwc) (CHR 0x09) False),
             output @ ''/gmm.pkl'' \<mapsto> Pickle clf1,
             output @ ''/topics_single.csv'' \<mapsto> TopicTuplesCSV (to_csv topics1 (CHR '','') True),
             output @ ''/topics.csv'' \<mapsto> TopicsCSV (to_csv topics3 (CHR '','') True),
             output @ ''/documents.csv'' \<mapsto> DocumentsCSV out1),
          events := events g @ [FittedGMM]\<rparr>)"

text \<open>
  Lines 130 to 214: model selection, the \<^verbatim>\<open>vectors_with_center.tsv\<close> and
  \<^verbatim>\<open>gmm.pkl\<close> artifacts, topic assignment, labeling, and the persisted tables.
\<close>

definition gmm_block :: "env \<Rightarrow> globals \<Rightarrow> error + globals" where
  "gmm_block e g =
     and_then (select_block e g) (\<lambda>sel.
     and_then (np_append (vectors g) (means (fst sel))) (\<lambda>vwc.
     and_then (lookup_str (args g) ''output'') (\<lambda>output.
     and_then (add_gmm_probas_to_out (texts_of (out g)) (vectors g) (fst sel)) (\<lambda>asg.
     and_then (label_block g (fst asg) (snd asg)) (\<lambda>lab.
       Inr (store g output (fst sel) (snd sel) vwc (fst asg) (snd asg) lab))))))"

text \<open>The whole script: parse the command line, then the three blocks.\<close>

definition main :: "env \<Rightarrow> cmdline \<Rightarrow> error + globals" where
  "main e cl =
     and_then (parse_args cl) (\<lambda>a.
     and_then (load_block e a) (\<lambda>l.
     and_then (vectors_block e a l) (\<lambda>g.
       if \<not> has_key a ''gmm-model'' then gmm_block e g else Inr g)))"


text \<open>
  The environment whose mixture fit reports other component means (\<open>h\<close> applied to them)
  and is the same in everything else; used to state that a result does not depend on the
  fitted means.
\<close>

definition with_means :: "(matrix \<Rightarrow> matrix) \<Rightarrow> env \<Rightarrow> env" where
  "with_means h e =
     e\<lparr>GaussianMixture_fit :=
         (\<lambda>X cv k r. map_option (\<lambda>m. m\<lparr>means := h (means m)\<rparr>) (GaussianMixture_fit e X cv k r))\<rparr>"

section \<open>A small corpus to run the script on\<close>

text \<open>
  Three documents with two-dimensional vectors, a five-word vocabulary, the dot product as the
  model's similarity, one stopword, and a mixture fit that succeeds for one, two and three
  components (with BIC 20, 10 and 5) and fails otherwise. With three components the third
  topic receives no document.
\<close>

definition dot :: "vec \<Rightarrow> vec \<Rightarrow> real" where
  "dot u v = sum_list (map2 (*) u v)"

definition toy_model :: doc2vec_model where
  "toy_model =
     \<lparr>docvecs = [[0, 0], [1 / 10, 1 / 10], [5, 5]],
      wv_vocab = [(''the'', [1, 1]), (''cat'', [0, 0]), (''dog'', [1 / 10, 1 / 10]),
                  (''car'', [5, 5]), (''road'', [5, 4])],
      similarity = dot\<rparr>"

definition toy_proba :: "nat \<Rightarrow> vec \<Rightarrow> real list" where
  "toy_proba k v =
     (if k = 1 then [1]
      else (case v of
              [] \<Rightarrow> replicate k (1 / real k)
            | x # xs \<Rightarrow> (if x < 1 then [9 / 10, 1 / 10] else [1 / 10, 9 / 10]) @ replicate (k - 2) 0))"

definition toy_gmm :: "string \<Rightarrow> nat \<Rightarrow> matrix \<Rightarrow> real \<Rightarrow> gmm" where
  "toy_gmm cv k ms b =
     \<lparr>n_components = k, covariance_type = cv, means = ms, predict_proba = toy_proba k,
      bic_score = (\<lambda>X. b)\<rparr>"

definition toy_fit :: fit where
  "toy_fit X cv k r =
     (if k = 1 then Some (toy_gmm cv 1 [[17 / 10, 17 / 10]] 20)
      else if k = 2 then Some (toy_gmm cv 2 [[1 / 10, 0], [5, 5]] 10)
      else if k = 3 then Some (toy_gmm cv 3 [[1 / 10, 0], [5, 5], [2, 2]] 5)
      else None)"

definition toy_env :: "string list list \<Rightarrow> env" where
  "toy_env docs =
     \<lparr>run_script = (\<lambda>vs. (docs, toy_model)),
      Doc2Vec_load = (\<lambda>p. toy_model),
      load_document_dataframe = (\<lambda>p. []),
      load_topics_dataframe = (\<lambda>p. \<lparr>columns = [], rows = []\<rparr>),
      joblib_load = (\<lambda>p. the (toy_fit [] [] 1 0)),
      get_all_stopwords = (\<lambda>text. ([''the''], ''en'')),
      GaussianMixture_fit = toy_fit\<rparr>"

definition toy_docs :: "string list list" where
  "toy_docs = [[''the'', ''cat'', ''dog''], [''dog'', ''dog'', ''cat''], [''car'', ''car'', ''road'']]"

text \<open>
  Command lines: one that names persisted models for both \<^verbatim>\<open>--d2v-model\<close> and
  \<^verbatim>\<open>--gmm-model\<close>, and two over a grid reaching three components that differ in
  \<^verbatim>\<open>--language\<close> only. The last corpus consists of stopwords only.
\<close>

definition cmd_pretrained :: cmdline where
  "cmd_pretrained =
     [(''-i'', [''data.csv'']), (''--gmmrange'', [''1'', ''3'', ''1'']),
      (''--d2v-model'', [''./Output'']), (''--gmm-model'', [''./Output''])]"

definition cmd_english :: cmdline where
  "cmd_english =
     [(''-i'', [''data.csv'']), (''--gmmrange'', [''1'', ''4'', ''1'']), (''--language'', [''en''])]"

definition cmd_german :: cmdline where
  "cmd_german =
     [(''-i'', [''data.csv'']), (''--gmmrange'', [''1'', ''4'', ''1'']), (''--language'', [''de''])]"


definition dests :: "string list" where
  "dests = map dest_of ap_arguments"

lemma dests_eval:
  "dests = [''input'', ''output'', ''language'', ''d2v_model'', ''gmm_model'', ''epochs'',
     ''dimension'', ''lemmathreads'', ''lemmabatchsize'', ''vectorizermin'', ''vectorizermax'',
     ''gmmverbose'', ''gmmninits'', ''gmmrange'', ''gmmcvtypes'', ''numtopicwords'']"
  by (simp add: dests_def ap_arguments_def arg_def dest_of_def)


section \<open>Reading the results of the blocks\<close>

lemma and_then_Inr: "(and_then r f = Inr y) = (\<exists>x. r = Inr x \<and> f x = Inr y)"
  by (cases r) (simp_all add: and_then_def)

lemma find_action_dest: "find_action flag = Some a \<Longrightarrow> dest_of a \<in> set dests"
  unfolding find_action_def dests_def by (auto simp: find_Some_iff)

lemma parse_options_dom:
  "parse_options cl ns = Inr ns' \<Longrightarrow> dom ns' \<subseteq> dom ns \<union> set dests"
proof (induction cl arbitrary: ns)
  case Nil
  then show ?case by simp
next
  case (Cons fv cl)
  obtain flag vals where fv: "fv = (flag, vals)" by (cases fv)
  from Cons.prems fv obtain a v where a: "find_action flag = Some a"
    and rest: "parse_options cl (ns(dest_of a \<mapsto> v)) = Inr ns'"
    by (auto split: option.splits sum.splits)
  have sub: "dom ns' \<subseteq> dom (ns(dest_of a \<mapsto> v)) \<union> set dests"
    by (rule Cons.IH [OF rest])
  have d: "dest_of a \<in> set dests" by (rule find_action_dest [OF a])
  show ?case
  proof
    fix x assume "x \<in> dom ns'"
    with sub have "x \<in> dom (ns(dest_of a \<mapsto> v)) \<or> x \<in> set dests" by (simp add: subset_iff)
    then have "x = dest_of a \<or> x \<in> dom ns \<or> x \<in> set dests" by (simp split: if_splits)
    with d show "x \<in> dom ns \<union> set dests" by (simp only: Un_iff) (elim disjE, simp_all)
  qed
qed

lemma dom_fold_defaults:
  "dom (fold (\<lambda>a ns. ns(dest_of a \<mapsto> default_val a)) as ns) = dom ns \<union> dest_of ` set as"
  by (induction as arbitrary: ns) auto

lemma dom_namespace_defaults: "dom namespace_defaults = set dests"
  by (simp add: namespace_defaults_def dom_fold_defaults dests_def)

lemma parse_args_dom: "parse_args cl = Inr a \<Longrightarrow> dom a \<subseteq> set dests"
  using parse_options_dom [of cl namespace_defaults] dom_namespace_defaults
  by (auto simp: parse_args_def split: sum.splits if_splits)

lemma parse_args_no_hyphen_keys:
  "parse_args cl = Inr a \<Longrightarrow> \<not> has_key a ''d2v-model'' \<and> \<not> has_key a ''gmm-model''"
proof -
  assume "parse_args cl = Inr a"
  then have d: "dom a \<subseteq> set dests" by (rule parse_args_dom)
  have "''d2v-model'' \<notin> set dests" "''gmm-model'' \<notin> set dests"
    by (simp_all add: dests_eval)
  with d show ?thesis by (auto simp: has_key_def)
qed

lemma store_frame:
  "vectors (store g output clf1 bic1 vwc out1 K lab) = vectors g"
  "events (store g output clf1 bic1 vwc out1 K lab) = events g @ [FittedGMM]"
  "stopwordssss (store g output clf1 bic1 vwc out1 K lab) = stopwordssss g"
  "model (store g output clf1 bic1 vwc out1 K lab) = model g"
  "args (store g output clf1 bic1 vwc out1 K lab) = args g"
  by (simp_all add: store_def split: prod.splits)

lemma gmm_block_Inr:
  assumes "gmm_block e g = Inr g'"
  obtains sel vwc outp asg lab where
    "select_block e g = Inr sel"
    "np_append (vectors g) (means (fst sel)) = Inr vwc"
    "lookup_str (args g) ''output'' = Inr outp"
    "add_gmm_probas_to_out (texts_of (out g)) (vectors g) (fst sel) = Inr asg"
    "label_block g (fst asg) (snd asg) = Inr lab"
    "g' = store g outp (fst sel) (snd sel) vwc (fst asg) (snd asg) lab"
  using assms unfolding gmm_block_def and_then_Inr by blast

lemma gmm_block_events: "gmm_block e g = Inr g' \<Longrightarrow> events g' = events g @ [FittedGMM] \<and> vectors g' = vectors g"
  by (erule gmm_block_Inr) (simp add: store_frame)

lemma and_then_InrE:
  assumes "and_then r f = Inr y"
  obtains x where "r = Inr x" "f x = Inr y"
  using assms by (auto simp: and_then_Inr)

lemma load_block_train:
  assumes "\<not> has_key a ''d2v-model''" and "load_block e a = Inr l"
  shows "\<exists>vs. l = (Unassigned (fst (run_script e vs)), snd (run_script e vs), None, None,
                  [TrainedDoc2Vec])"
proof -
  from assms have
    "and_then (lookup a ''input'') (\<lambda>input.
        and_then (lookup_str a ''output'') (\<lambda>outp.
        and_then (lookups a [''epochs'', ''dimension'', ''language'', ''vectorizermax'',
                             ''vectorizermin'', ''lemmathreads'', ''lemmabatchsize'']) (\<lambda>rest.
          case run_script e ([input, VStr (outp @ ''/Doc2Vec.model''),
                              VStr (outp @ ''/documents.csv'')] @ rest) of
            (out0, model0) \<Rightarrow> Inr (Unassigned out0, model0, None, None, [TrainedDoc2Vec])))) = Inr l"
    by (simp only: load_block_def simp_thms if_True)
  then obtain input outp rest where
    "(case run_script e ([input, VStr (outp @ ''/Doc2Vec.model''),
                          VStr (outp @ ''/documents.csv'')] @ rest) of
        (out0, model0) \<Rightarrow> Inr (Unassigned out0, model0, None, None, [TrainedDoc2Vec])) =
     (Inr l :: error + loaded)"
    by (elim and_then_InrE)
  then have "l = (Unassigned (fst (run_script e ([input, VStr (outp @ ''/Doc2Vec.model''),
                          VStr (outp @ ''/documents.csv'')] @ rest))),
                  snd (run_script e ([input, VStr (outp @ ''/Doc2Vec.model''),
                          VStr (outp @ ''/documents.csv'')] @ rest)),
                  None, None, [TrainedDoc2Vec])"
    by (simp add: split_beta)
  then show ?thesis by (rule exI)
qed

lemma vectors_block_Inr:
  assumes "vectors_block e a (o0, m0, t0, c0, ev) = Inr g"
  obtains outp where
    "lookup_str a ''output'' = Inr outp"
    "g = \<lparr>args = a, out = o0, model = m0, topics = t0, clf = c0,
          vectors = docvecs m0,
          stopwordssss = fst (get_all_stopwords e (join_sp (take 100 (map fst (wv_vocab m0))))),
          LANGUAGE = snd (get_all_stopwords e (join_sp (take 100 (map fst (wv_vocab m0))))),
          bic = None, gmm_center = None, vectors_with_center = None, GMM_N_COMPONENTS = None,
          center = None, simsdf = None,
          files = [outp @ ''/vectors.tsv'' \<mapsto>
                     MatrixCSV (to_csv (DataFrame (docvecs m0)) (CHR 0x09) False)],
          events = ev\<rparr>"
proof -
  from assms have "\<exists>outp. lookup_str a ''output'' = Inr outp \<and>
    (let vectors0 = docvecs m0;
              vocab = map fst (wv_vocab m0)
          in case get_all_stopwords e (join_sp (take 100 vocab)) of
               (sw, lang) \<Rightarrow>
                 Inr \<lparr>args = a, out = o0, model = m0, topics = t0, clf = c0,
                      vectors = vectors0, stopwordssss = sw, LANGUAGE = lang, bic = None,
                      gmm_center = None, vectors_with_center = None, GMM_N_COMPONENTS = None,
                      center = None, simsdf = None,
                      files = [outp @ ''/vectors.tsv'' \<mapsto>
                                 MatrixCSV (to_csv (DataFrame vectors0) (CHR 0x09) False)],
                      events = ev\<rparr>) = (Inr g :: error + globals)"
    unfolding vectors_block_def prod.case and_then_Inr .
  then obtain outp where o: "lookup_str a ''output'' = Inr outp"
    and r: "(let vectors0 = docvecs m0;
              vocab = map fst (wv_vocab m0)
          in case get_all_stopwords e (join_sp (take 100 vocab)) of
               (sw, lang) \<Rightarrow>
                 Inr \<lparr>args = a, out = o0, model = m0, topics = t0, clf = c0,
                      vectors = vectors0, stopwordssss = sw, LANGUAGE = lang, bic = None,
                      gmm_center = None, vectors_with_center = None, GMM_N_COMPONENTS = None,
                      center = None, simsdf = None,
                      files = [outp @ ''/vectors.tsv'' \<mapsto>
                                 MatrixCSV (to_csv (DataFrame vectors0) (CHR 0x09) False)],
                      events = ev\<rparr>) = (Inr g :: error + globals)"
    by (elim exE conjE)
  from r have "g = \<lparr>args = a, out = o0, model = m0, topics = t0, clf = c0,
          vectors = docvecs m0,
          stopwordssss = fst (get_all_stopwords e (join_sp (take 100 (map fst (wv_vocab m0))))),
          LANGUAGE = snd (get_all_stopwords e (join_sp (take 100 (map fst (wv_vocab m0))))),
          bic = None, gmm_center = None, vectors_with_center = None, GMM_N_COMPONENTS = None,
          center = None, simsdf = None,
          files = [outp @ ''/vectors.tsv'' \<mapsto>
                     MatrixCSV (to_csv (DataFrame (docvecs m0)) (CHR 0x09) False)],
          events = ev\<rparr>"
    by (simp only: Let_def split_beta sum.inject)
  with o that show thesis by fast
qed

lemma main_Inr:
  assumes "main e cl = Inr g"
  obtains a l g0 where
    "parse_args cl = Inr a" "load_block e a = Inr l" "vectors_block e a l = Inr g0"
    "gmm_block e g0 = Inr g"
proof -
  from assms obtain a l g0 where a: "parse_args cl = Inr a" and l: "load_block e a = Inr l"
    and g0: "vectors_block e a l = Inr g0"
    and r: "(if \<not> has_key a ''gmm-model'' then gmm_block e g0 else Inr g0) = Inr g"
    unfolding main_def and_then_Inr by fast
  from parse_args_no_hyphen_keys [OF a] r have "gmm_block e g0 = Inr g" by simp
  with a l g0 that show thesis by fast
qed


lemma store_fields:
  "out (store g outp clf1 bic1 vwc out1 K lab) = Assigned out1"
  "clf (store g outp clf1 bic1 vwc out1 K lab) = Some clf1"
  "gmm_center (store g outp clf1 bic1 vwc out1 K lab) = Some (means clf1)"
  "vectors_with_center (store g outp clf1 bic1 vwc out1 K lab) = Some vwc"
  "GMM_N_COMPONENTS (store g outp clf1 bic1 vwc out1 K lab) = Some K"
  "center (store g outp clf1 bic1 vwc out1 K lab) = Some (fst lab)"
  "simsdf (store g outp clf1 bic1 vwc out1 K lab) = Some (fst (snd (snd lab)))"
  "topics (store g outp clf1 bic1 vwc out1 K lab) = Some (snd (snd (snd lab)))"
  by (simp_all add: store_def split: prod.splits)

lemma store_files:
  "files (store g outp clf1 bic1 vwc out1 K lab) (outp @ ''/vectors.tsv'') =
     files g (outp @ ''/vectors.tsv'')"
  "files (store g outp clf1 bic1 vwc out1 K lab) (outp @ ''/vectors_with_center.tsv'') =
     Some (MatrixCSV (to_csv (DataFrame vwc) (CHR 0x09) False))"
  "files (store g outp clf1 bic1 vwc out1 K lab) (outp @ ''/topics_single.csv'') =
     Some (TopicTuplesCSV (to_csv (fst (snd lab)) (CHR '','') True))"
  "files (store g outp clf1 bic1 vwc out1 K lab) (outp @ ''/topics.csv'') =
     Some (TopicsCSV (to_csv (snd (snd (snd lab))) (CHR '','') True))"
  by (simp_all add: store_def split: prod.splits)

lemma main_run:
  assumes "main e cl = Inr g"
  obtains a o0 m0 g0 outp sel vwc asg lab vs where
    "parse_args cl = Inr a"
    "load_block e a = Inr (o0, m0, None, None, [TrainedDoc2Vec])"
    "o0 = Unassigned (fst (run_script e vs))" "m0 = snd (run_script e vs)"
    "args g0 = a" "out g0 = o0" "model g0 = m0" "vectors g0 = docvecs m0"
    "stopwordssss g0 = fst (get_all_stopwords e (join_sp (take 100 (map fst (wv_vocab m0)))))"
    "files g0 = [outp @ ''/vectors.tsv'' \<mapsto>
                  MatrixCSV (to_csv (DataFrame (docvecs m0)) (CHR 0x09) False)]"
    "lookup_str a ''output'' = Inr outp"
    "select_block e g0 = Inr sel"
    "np_append (docvecs m0) (means (fst sel)) = Inr vwc"
    "add_gmm_probas_to_out (texts_of o0) (docvecs m0) (fst sel) = Inr asg"
    "label_block g0 (fst asg) (snd asg) = Inr lab"
    "g = store g0 outp (fst sel) (snd sel) vwc (fst asg) (snd asg) lab"
proof -
  from assms obtain a l g0 where a: "parse_args cl = Inr a" and l: "load_block e a = Inr l"
    and g0: "vectors_block e a l = Inr g0" and g: "gmm_block e g0 = Inr g"
    by (rule main_Inr)
  from parse_args_no_hyphen_keys [OF a] have nk: "\<not> has_key a ''d2v-model''" by simp
  from load_block_train [OF nk l] obtain vs where
    l0: "l = (Unassigned (fst (run_script e vs)), snd (run_script e vs), None, None,
              [TrainedDoc2Vec])"
    by (elim exE)
  define o0 where "o0 = Unassigned (fst (run_script e vs))"
  define m0 where "m0 = snd (run_script e vs)"
  from l0 have l': "l = (o0, m0, None, None, [TrainedDoc2Vec])" by (simp add: o0_def m0_def)
  from g0 l' have vb: "vectors_block e a (o0, m0, None, None, [TrainedDoc2Vec]) = Inr g0" by simp
  from vb obtain outp where o: "lookup_str a ''output'' = Inr outp"
    and f: "args g0 = a" "out g0 = o0" "model g0 = m0" "vectors g0 = docvecs m0"
      "stopwordssss g0 = fst (get_all_stopwords e (join_sp (take 100 (map fst (wv_vocab m0)))))"
      "files g0 = [outp @ ''/vectors.tsv'' \<mapsto>
                  MatrixCSV (to_csv (DataFrame (docvecs m0)) (CHR 0x09) False)]"
    by (rule vectors_block_Inr) simp
  from g obtain sel vwc outp' asg lab where s: "select_block e g0 = Inr sel"
    and v: "np_append (vectors g0) (means (fst sel)) = Inr vwc"
    and o': "lookup_str (args g0) ''output'' = Inr outp'"
    and asg: "add_gmm_probas_to_out (texts_of (out g0)) (vectors g0) (fst sel) = Inr asg"
    and lab: "label_block g0 (fst asg) (snd asg) = Inr lab"
    and st: "g = store g0 outp' (fst sel) (snd sel) vwc (fst asg) (snd asg) lab"
    by (rule gmm_block_Inr)
  from o o' f(1) have "outp' = outp" by simp
  with a l l' f o s v asg lab st o0_def m0_def that show thesis by simp
qed

lemma concat_values:
  "concat (map (\<lambda>x. case x of Index i \<Rightarrow> [] | Value v \<Rightarrow> [v]) (map Value r)) = r"
  by (induction r) simp_all

lemma csv_values_to_csv: "csv_values (to_csv df s h) = rows df"
  by (simp add: csv_values_def to_csv_def o_def split_beta concat_values)

lemma to_csv_matrix:
  "to_csv (DataFrame X) s False =
     \<lparr>sep = s, header = None, body = map (\<lambda>(i, r). Index i # map Value r) (enumerate 0 X)\<rparr>"
  by (simp add: to_csv_def DataFrame_def)

lemma np_append_Inr: "np_append a b = Inr c \<Longrightarrow> c = a @ b \<and> ncols a = ncols b"
  by (simp add: np_append_def split: if_splits)

lemma main_vectors_file:
  assumes "main e cl = Inr g"
  shows "\<exists>outp. lookup_str (args g) ''output'' = Inr outp \<and>
           files g (outp @ ''/vectors.tsv'') =
             Some (MatrixCSV \<lparr>sep = CHR 0x09, header = None,
                     body = map (\<lambda>(i, r). Index i # map Value r)
                              (enumerate 0 (docvecs (model g)))\<rparr>) \<and>
           vectors g = docvecs (model g)"
  using assms
proof (rule main_run)
  fix a o0 m0 g0 outp sel vwc asg lab vs
  assume "args g0 = a" "model g0 = m0" "vectors g0 = docvecs m0"
    and f: "files g0 = [outp @ ''/vectors.tsv'' \<mapsto>
                  MatrixCSV (to_csv (DataFrame (docvecs m0)) (CHR 0x09) False)]"
    and "lookup_str a ''output'' = Inr outp"
    and "g = store g0 outp (fst sel) (snd sel) vwc (fst asg) (snd asg) lab"
  then show ?thesis
    by (intro exI [of _ outp]) (simp add: store_frame store_files to_csv_matrix)
qed

lemma toy_model_of_run: "main (toy_env d) cl = Inr g \<Longrightarrow> model g = toy_model"
  by (erule main_run) (simp add: store_frame toy_env_def)

lemma toy_english_values:
  "case main (toy_env toy_docs) cmd_english of
     Inl e \<Rightarrow> False
   | Inr g \<Rightarrow>
       center g = Some [[1 / 20, 1 / 20], [5, 5], [0, 0]] \<and>
       gmm_center g = Some [[1 / 10, 0], [5, 5], [2, 2]] \<and>
       topics g = Some
         \<lparr>columns = [Name ''top_words'', Name ''top_words_count'', Name ''sim_words'',
                     Name ''sim_words_prob'', Name ''sim_docs_indx'', Name ''sim_docs_prob''],
          rows = [[Words [''dog'', ''cat''], Counts [3, 2],
                   Words [''car'', ''road'', ''the'', ''dog'', ''cat''],
                   Scores [1 / 2, 9 / 20, 1 / 10, 1 / 100, 0], Indices [2, 1, 0],
                   Scores [1 / 2, 1 / 100, 0]],
                  [Words [''car'', ''road''], Counts [2, 1],
                   Words [''car'', ''road'', ''the'', ''dog'', ''cat''],
                   Scores [50, 45, 10, 1, 0], Indices [2, 1, 0], Scores [50, 1, 0]],
                  [Words ['''', ''''], Counts [0, 0],
                   Words [''the'', ''cat'', ''dog'', ''car'', ''road''],
                   Scores [0, 0, 0, 0, 0], Indices [0, 1, 2], Scores [0, 0, 0]]]\<rparr>"
  by code_simp


lemma toy_run_english: "\<exists>g. main (toy_env toy_docs) cmd_english = Inr g"
  using toy_english_values by (cases "main (toy_env toy_docs) cmd_english") simp_all



lemma main_center_file:
  assumes "main e cl = Inr g"
  shows "\<exists>outp clf1.
           lookup_str (args g) ''output'' = Inr outp \<and> clf g = Some clf1 \<and>
           gmm_center g = Some (means clf1) \<and>
           vectors_with_center g = Some (vectors g @ means clf1) \<and>
           files g (outp @ ''/vectors_with_center.tsv'') =
             Some (MatrixCSV \<lparr>sep = CHR 0x09, header = None,
                     body = map (\<lambda>(i, r). Index i # map Value r)
                              (enumerate 0 (vectors g @ means clf1))\<rparr>)"
  using assms
proof (rule main_run)
  fix a o0 m0 g0 outp sel vwc asg lab vs
  assume "args g0 = a" "vectors g0 = docvecs m0"
    and "lookup_str a ''output'' = Inr outp"
    and v: "np_append (docvecs m0) (means (fst sel)) = Inr vwc"
    and "g = store g0 outp (fst sel) (snd sel) vwc (fst asg) (snd asg) lab"
  with np_append_Inr [OF v] show ?thesis
    by (intro exI [of _ outp] exI [of _ "fst sel"])
       (simp add: store_frame store_files store_fields to_csv_matrix)
qed

lemma main_stopwords:
  assumes "main e cl = Inr g"
  shows "stopwordssss g =
           fst (get_all_stopwords e (join_sp (take 100 (map fst (wv_vocab (model g))))))"
  using assms by (rule main_run) (simp add: store_frame)


lemma main_args: "main e cl = Inr g \<Longrightarrow> parse_args cl = Inr (args g)"
  by (erule main_run) (simp add: store_frame)

lemma csv_values_indexed:
  "csv_values \<lparr>sep = s, header = h, body = map (\<lambda>(i, r). Index i # map Value r) (enumerate 0 X)\<rparr>
     = X"
  by (simp add: csv_values_def o_def split_beta concat_values)

lemma toy_run_german: "\<exists>g. main (toy_env toy_docs) cmd_german = Inr g"
proof -
  have "case main (toy_env toy_docs) cmd_german of Inl e \<Rightarrow> False | Inr g \<Rightarrow> True"
    by code_simp
  then show ?thesis by (cases "main (toy_env toy_docs) cmd_german") simp_all
qed

lemma toy_run_pretrained: "\<exists>g. main (toy_env toy_docs) cmd_pretrained = Inr g"
proof -
  have "case main (toy_env toy_docs) cmd_pretrained of Inl e \<Rightarrow> False | Inr g \<Rightarrow> True"
    by code_simp
  then show ?thesis by (cases "main (toy_env toy_docs) cmd_pretrained") simp_all
qed

section \<open>Model selection\<close>

lemma lowest_bic_Some:
  "lowest_bic X ms = Some b \<Longrightarrow> b \<in> set ms \<and> (\<forall>m\<in>set ms. bic_score b X \<le> bic_score m X)"
proof (induction ms arbitrary: b)
  case Nil
  then show ?case by simp
next
  case (Cons m ms)
  show ?case
  proof (cases "lowest_bic X ms")
    case None
    with Cons.prems have "b = m" by simp
    moreover from None have "ms = []" by (cases ms) (auto split: option.splits if_splits)
    ultimately show ?thesis by simp
  next
    case (Some b')
    from Cons.IH [OF Some] have b': "b' \<in> set ms" "\<forall>m\<in>set ms. bic_score b' X \<le> bic_score m X"
      by simp_all
    show ?thesis
    proof (cases "bic_score b' X < bic_score m X")
      case True
      with Some Cons.prems have "b = b'" by simp
      with b' True show ?thesis by auto
    next
      case False
      with Some Cons.prems have "b = m" by simp
      with b' False show ?thesis by fastforce
    qed
  qed
qed

lemma lowest_bic_None: "lowest_bic X ms = None \<Longrightarrow> ms = []"
  by (cases ms) (auto split: option.splits if_splits)

lemma best_cell_Some:
  "best_cell X cs = Some b \<Longrightarrow>
     b \<in> set cs \<and> (\<forall>c\<in>set cs. bic_score (snd (snd b)) X \<le> bic_score (snd (snd c)) X)"
proof (induction cs arbitrary: b)
  case Nil
  then show ?case by simp
next
  case (Cons c cs)
  show ?case
  proof (cases "best_cell X cs")
    case None
    with Cons.prems have "b = c" by simp
    moreover from None have "cs = []" by (cases cs) (auto split: option.splits if_splits)
    ultimately show ?thesis by simp
  next
    case (Some b')
    from Cons.IH [OF Some] have b': "b' \<in> set cs"
      "\<forall>c\<in>set cs. bic_score (snd (snd b')) X \<le> bic_score (snd (snd c)) X"
      by simp_all
    show ?thesis
    proof (cases "better X b' c")
      case True
      with Some Cons.prems have "b = b'" by simp
      moreover from True have "bic_score (snd (snd b')) X \<le> bic_score (snd (snd c)) X"
        by (auto simp: better_def split: prod.splits)
      ultimately show ?thesis using b' by auto
    next
      case False
      with Some Cons.prems have "b = c" by simp
      moreover from False have "bic_score (snd (snd c)) X \<le> bic_score (snd (snd b')) X"
        by (auto simp: better_def split: prod.splits)
      ultimately show ?thesis using b' by fastforce
    qed
  qed
qed

lemma best_cell_None: "best_cell X cs = None \<Longrightarrow> cs = []"
  by (cases cs) (auto split: option.splits if_splits)

lemma set_map_filter: "set (List.map_filter f xs) = {y. \<exists>x\<in>set xs. f x = Some y}"
  by (induction xs) (auto simp: List.map_filter_simps split: option.splits)

lemma fit_cell_Some:
  "fit_cell fit X cv k restarts = Some b \<Longrightarrow>
     (\<exists>r<restarts. fit X cv k r = Some b) \<and>
     (\<forall>r<restarts. \<forall>m. fit X cv k r = Some m \<longrightarrow> bic_score b X \<le> bic_score m X)"
  unfolding fit_cell_def
  by (drule lowest_bic_Some) (force simp: set_map_filter)

lemma fit_cell_None:
  "fit_cell fit X cv k restarts = None \<Longrightarrow> r < restarts \<Longrightarrow> fit X cv k r = None"
  unfolding fit_cell_def
  by (drule lowest_bic_None) (auto simp: List.map_filter_def filter_empty_conv)

lemma in_grid_cells:
  "(fi, cv, k) \<in> set (grid_cells cvs ks) \<longleftrightarrow> fi < length cvs \<and> cvs ! fi = cv \<and> k \<in> set ks"
proof
  assume "(fi, cv, k) \<in> set (grid_cells cvs ks)"
  then show "fi < length cvs \<and> cvs ! fi = cv \<and> k \<in> set ks"
    by (auto simp: grid_cells_def in_set_enumerate_eq)
next
  assume a: "fi < length cvs \<and> cvs ! fi = cv \<and> k \<in> set ks"
  then have "(fi, cv) \<in> set (enumerate 0 cvs)" by (simp add: in_set_enumerate_eq)
  moreover from a have "(fi, cv, k) \<in> set (map (\<lambda>k. (fi, cv, k)) ks)" by simp
  ultimately show "(fi, cv, k) \<in> set (grid_cells cvs ks)"
    by (auto simp: grid_cells_def intro!: bexI [of _ "(fi, cv)"])
qed

lemma optimize_Inr:
  assumes "py_range start stop step = Inr ks"
  shows "optimize_gmm_components fit X (start, stop, step) cvs restarts =
           Inr (map_option (\<lambda>(fi, k, m). m)
                  (best_cell X
                     (List.map_filter (\<lambda>(fi, cv, k, c). map_option (\<lambda>m. (fi, k, m)) c)
                        (map (\<lambda>(fi, cv, k). (fi, cv, k, fit_cell fit X cv k restarts))
                           (grid_cells cvs ks)))),
                map (\<lambda>(fi, cv, k, c). (cv, k, map_option (\<lambda>m. bic_score m X) c))
                  (map (\<lambda>(fi, cv, k). (fi, cv, k, fit_cell fit X cv k restarts))
                     (grid_cells cvs ks)))"
  using assms by (simp add: optimize_gmm_components_def and_then_def Let_def)

lemma in_fitted_cells:
  "(fi, k, m) \<in> set (List.map_filter (\<lambda>(fi, cv, k, c). map_option (\<lambda>m. (fi, k, m)) c)
                        (map (\<lambda>(fi, cv, k). (fi, cv, k, fit_cell fit X cv k restarts))
                           (grid_cells cvs ks)))
   \<longleftrightarrow> fi < length cvs \<and> k \<in> set ks \<and> fit_cell fit X (cvs ! fi) k restarts = Some m"
proof
  assume "(fi, k, m) \<in> set (List.map_filter (\<lambda>(fi, cv, k, c). map_option (\<lambda>m. (fi, k, m)) c)
                        (map (\<lambda>(fi, cv, k). (fi, cv, k, fit_cell fit X cv k restarts))
                           (grid_cells cvs ks)))"
  then show "fi < length cvs \<and> k \<in> set ks \<and> fit_cell fit X (cvs ! fi) k restarts = Some m"
    by (auto simp: set_map_filter in_grid_cells split: prod.splits)
next
  assume a: "fi < length cvs \<and> k \<in> set ks \<and> fit_cell fit X (cvs ! fi) k restarts = Some m"
  then have "(fi, cvs ! fi, k) \<in> set (grid_cells cvs ks)" by (simp add: in_grid_cells)
  with a show "(fi, k, m) \<in> set (List.map_filter (\<lambda>(fi, cv, k, c). map_option (\<lambda>m. (fi, k, m)) c)
                        (map (\<lambda>(fi, cv, k). (fi, cv, k, fit_cell fit X cv k restarts))
                           (grid_cells cvs ks)))"
    by (auto simp: set_map_filter intro!: bexI [of _ "(fi, cvs ! fi, k)"])
qed

section \<open>Topic assignment, centers and labels\<close>

lemma fold_vadd_nth:
  "\<forall>v\<in>set vs. length v = d \<Longrightarrow> length acc = d \<Longrightarrow> j < d \<Longrightarrow>
     length (fold vadd vs acc) = d \<and> fold vadd vs acc ! j = acc ! j + (\<Sum>v\<leftarrow>vs. v ! j)"
proof (induction vs arbitrary: acc)
  case Nil
  then show ?case by simp
next
  case (Cons v vs)
  have l: "length (vadd v acc) = d" using Cons.prems by (simp add: vadd_def)
  have n: "vadd v acc ! j = v ! j + acc ! j" using Cons.prems by (simp add: vadd_def)
  from Cons.IH [OF _ l Cons.prems(3)] Cons.prems(1) n show ?case by simp
qed

lemma mean_vec_nth:
  assumes "vs \<noteq> []" and "\<forall>v\<in>set vs. length v = d" and "j < d"
  shows "mean_vec d vs ! j = (\<Sum>v\<leftarrow>vs. v ! j) / real (length vs)"
proof -
  from fold_vadd_nth [OF assms(2) _ assms(3), of "replicate d 0"] assms(3)
  have "length (fold vadd vs (replicate d 0)) = d"
    and "fold vadd vs (replicate d 0) ! j = (\<Sum>v\<leftarrow>vs. v ! j)" by simp_all
  with assms(1,3) show ?thesis by (simp add: mean_vec_def)
qed

lemma set_members: "set (members t ds X) \<subseteq> set X"
  by (auto simp: members_def dest: set_zip_rightD)

lemma center_nth:
  assumes "\<forall>v\<in>set X. length v = ncols X" and "t < K" and "members t ds X \<noteq> []"
    and "j < ncols X"
  shows "get_gmm_cluster_center K ds X ! t ! j =
           (\<Sum>v\<leftarrow>members t ds X. v ! j) / real (length (members t ds X))"
proof -
  from assms(1) set_members [of t ds X] have "\<forall>v\<in>set (members t ds X). length v = ncols X"
    by (simp add: subset_iff)
  from mean_vec_nth [OF assms(3) this assms(4)] assms(2) show ?thesis
    by (simp add: get_gmm_cluster_center_def)
qed

lemma label_block_Inr:
  assumes "label_block g out1 K = Inr lab"
  obtains ntw nw t2 where
    "lookup (args g) ''numtopicwords'' = Inr ntw" "as_count ntw = Inr nw"
    "fst lab = get_gmm_cluster_center K out1 (vectors g)"
    "fst (snd lab) = fst (get_all_topics_from_centers (fst lab) out1 (stopwordssss g) nw)"
    "fst (snd (snd lab)) = get_most_similar_words_and_docs (fst lab) (model g) 30 30"
    "set_columns (unpack_topics (rows (fst (snd lab))))
       [Name ''top_words'', Name ''top_words_count''] = Inr t2"
    "df_join t2 (fst (snd (snd lab))) = Inr (snd (snd (snd lab)))"
proof -
  from assms obtain ntw nw t2 t3 where
    "lookup (args g) ''numtopicwords'' = Inr ntw" "as_count ntw = Inr nw"
    "set_columns (unpack_topics (rows (fst (get_all_topics_from_centers
         (get_gmm_cluster_center K out1 (vectors g)) out1 (stopwordssss g) nw))))
       [Name ''top_words'', Name ''top_words_count''] = Inr t2"
    "df_join t2 (get_most_similar_words_and_docs (get_gmm_cluster_center K out1 (vectors g))
                  (model g) 30 30) = Inr t3"
    "lab = (get_gmm_cluster_center K out1 (vectors g),
            fst (get_all_topics_from_centers
                   (get_gmm_cluster_center K out1 (vectors g)) out1 (stopwordssss g) nw),
            get_most_similar_words_and_docs (get_gmm_cluster_center K out1 (vectors g))
                  (model g) 30 30, t3)"
    unfolding label_block_def Let_def and_then_Inr by auto
  with that show thesis by simp
qed


lemma lowest_bic_map:
  assumes "\<And>m. bic_score (u m) X = bic_score m X"
  shows "lowest_bic X (map u ms) = map_option u (lowest_bic X ms)"
  by (induction ms) (auto simp: assms split: option.splits)

lemma map_filter_map_option:
  "List.map_filter (\<lambda>r. map_option u (f r)) xs = map u (List.map_filter f xs)"
  by (induction xs) (auto simp: List.map_filter_simps split: option.splits)

lemma fit_cell_map:
  assumes "\<And>m. bic_score (u m) X = bic_score m X"
  shows "fit_cell (\<lambda>X cv k r. map_option u (fit X cv k r)) X cv k n =
           map_option u (fit_cell fit X cv k n)"
  by (simp add: fit_cell_def map_filter_map_option lowest_bic_map [OF assms])

lemma better_map:
  assumes "\<And>m. bic_score (u m) X = bic_score m X"
  shows "better X (fb, kb, u mb) (fc, kc, u mc) = better X (fb, kb, mb) (fc, kc, mc)"
  by (simp add: better_def assms)

lemma best_cell_map:
  assumes "\<And>m. bic_score (u m) X = bic_score m X"
  shows "best_cell X (map (\<lambda>(f, k, m). (f, k, u m)) cs) =
           map_option (\<lambda>(f, k, m). (f, k, u m)) (best_cell X cs)"
proof (induction cs)
  case Nil
  then show ?case by simp
next
  case (Cons c cs)
  obtain fc kc mc where c: "c = (fc, kc, mc)" by (cases c)
  show ?case
  proof (cases "best_cell X cs")
    case None
    with Cons c show ?thesis by simp
  next
    case (Some b)
    obtain fb kb mb where b: "b = (fb, kb, mb)" by (cases b)
    from Cons Some b c show ?thesis by (simp add: better_map [OF assms])
  qed
qed

lemma optimize_map:
  assumes "\<And>m. bic_score (u m) X = bic_score m X"
  shows "optimize_gmm_components (\<lambda>X cv k r. map_option u (fit X cv k r)) X rng cvs n =
           (case optimize_gmm_components fit X rng cvs n of
              Inl err \<Rightarrow> Inl err
            | Inr bt \<Rightarrow> Inr (map_option u (fst bt), snd bt))"
proof -
  obtain start stop step where rng: "rng = (start, stop, step)" by (cases rng)
  show ?thesis
  proof (cases "py_range start stop step")
    case (Inl err)
    then show ?thesis by (simp add: rng optimize_gmm_components_def and_then_def)
  next
    case (Inr ks)
    have cells: "List.map_filter (\<lambda>(fi, cv, k, c). map_option (\<lambda>m. (fi, k, m)) c)
              (map (\<lambda>(fi, cv, k). (fi, cv, k, map_option u (fit_cell fit X cv k n))) gs) =
          map (\<lambda>(f, k, m). (f, k, u m))
            (List.map_filter (\<lambda>(fi, cv, k, c). map_option (\<lambda>m. (fi, k, m)) c)
               (map (\<lambda>(fi, cv, k). (fi, cv, k, fit_cell fit X cv k n)) gs))" for gs
      by (induction gs) (auto simp: List.map_filter_simps split: option.splits)
    have tbl: "map (\<lambda>(fi, cv, k, c). (cv, k, map_option (\<lambda>m. bic_score m X) c))
              (map (\<lambda>(fi, cv, k). (fi, cv, k, map_option u (fit_cell fit X cv k n))) gs) =
          map (\<lambda>(fi, cv, k, c). (cv, k, map_option (\<lambda>m. bic_score m X) c))
              (map (\<lambda>(fi, cv, k). (fi, cv, k, fit_cell fit X cv k n)) gs)" for gs
      by (induction gs) (auto simp: assms option.map_comp o_def)
    show ?thesis
      by (simp add: rng optimize_Inr [OF Inr] fit_cell_map [OF assms] cells tbl
            best_cell_map [OF assms] option.map_comp o_def split_beta assms)
  qed
qed

lemma assign_rows_means: "assign_rows (m\<lparr>means := x\<rparr>) tvs = assign_rows m tvs"
  by (induction tvs) (auto split: option.splits)

lemma add_gmm_probas_means:
  "add_gmm_probas_to_out texts X (m\<lparr>means := x\<rparr>) = add_gmm_probas_to_out texts X m"
  by (simp add: add_gmm_probas_to_out_def assign_rows_means)

lemma select_block_with_means:
  "select_block (with_means h e) g =
     (case select_block e g of
        Inl err \<Rightarrow> Inl err
      | Inr sel \<Rightarrow> Inr ((fst sel)\<lparr>means := h (means (fst sel))\<rparr>, snd sel))"
proof -
  have u: "bic_score (m\<lparr>means := h (means m)\<rparr>) X = bic_score m X" for m :: gmm and X
    by simp
  have f: "GaussianMixture_fit (with_means h e) =
      (\<lambda>X cv k r. map_option (\<lambda>m. m\<lparr>means := h (means m)\<rparr>) (GaussianMixture_fit e X cv k r))"
    by (simp add: with_means_def)
  show ?thesis
    unfolding select_block_def f optimize_map [of "\<lambda>m. m\<lparr>means := h (means m)\<rparr>", OF u]
    by (auto simp: and_then_def split: sum.splits option.splits)
qed


lemma with_means_fields:
  "run_script (with_means h e) = run_script e"
  "Doc2Vec_load (with_means h e) = Doc2Vec_load e"
  "load_document_dataframe (with_means h e) = load_document_dataframe e"
  "load_topics_dataframe (with_means h e) = load_topics_dataframe e"
  "joblib_load (with_means h e) = joblib_load e"
  "get_all_stopwords (with_means h e) = get_all_stopwords e"
  by (simp_all add: with_means_def)

lemma load_block_with_means: "load_block (with_means h e) a = load_block e a"
  unfolding load_block_def with_means_fields ..

lemma vectors_block_with_means: "vectors_block (with_means h e) a l = vectors_block e a l"
  unfolding vectors_block_def with_means_fields ..

lemma main_with_means:
  assumes "main e cl = Inr g" and "main (with_means h e) cl = Inr g'"
  shows "center g' = center g \<and> simsdf g' = simsdf g \<and> topics g' = topics g \<and> out g' = out g"
proof -
  from assms(1) obtain a l g0 where a: "parse_args cl = Inr a" and l: "load_block e a = Inr l"
    and g0: "vectors_block e a l = Inr g0" and g: "gmm_block e g0 = Inr g"
    by (rule main_Inr)
  from assms(2) obtain a' l' g0' where a': "parse_args cl = Inr a'"
    and l': "load_block (with_means h e) a' = Inr l'"
    and g0': "vectors_block (with_means h e) a' l' = Inr g0'"
    and g': "gmm_block (with_means h e) g0' = Inr g'"
    by (rule main_Inr)
  from a a' have "a' = a" by simp
  with l l' have "l' = l" by (simp add: load_block_with_means)
  with g0 g0' \<open>a' = a\<close> have "g0' = g0" by (simp add: vectors_block_with_means)
  from g obtain sel vwc outp asg lab where s: "select_block e g0 = Inr sel"
    and asg: "add_gmm_probas_to_out (texts_of (out g0)) (vectors g0) (fst sel) = Inr asg"
    and lab: "label_block g0 (fst asg) (snd asg) = Inr lab"
    and st: "g = store g0 outp (fst sel) (snd sel) vwc (fst asg) (snd asg) lab"
    by (rule gmm_block_Inr)
  from g' \<open>g0' = g0\<close> obtain sel' vwc' outp' asg' lab' where
    s': "select_block (with_means h e) g0 = Inr sel'"
    and asg': "add_gmm_probas_to_out (texts_of (out g0)) (vectors g0) (fst sel') = Inr asg'"
    and lab': "label_block g0 (fst asg') (snd asg') = Inr lab'"
    and st': "g' = store g0 outp' (fst sel') (snd sel') vwc' (fst asg') (snd asg') lab'"
    by (auto elim: gmm_block_Inr)
  from s s' have "fst sel' = (fst sel)\<lparr>means := h (means (fst sel))\<rparr>"
    by (auto simp: select_block_with_means)
  with asg asg' have "asg' = asg" by (simp add: add_gmm_probas_means)
  with lab lab' have "lab' = lab" by simp
  with st st' \<open>asg' = asg\<close> show ?thesis by (simp add: store_fields)
qed

lemma main_labels:
  assumes "main e cl = Inr g"
  obtains K ds cs clf1 outp ntw nw t2 t3 texts where
    "out g = Assigned ds" "GMM_N_COMPONENTS g = Some K" "center g = Some cs"
    "clf g = Some clf1" "gmm_center g = Some (means clf1)"
    "cs = get_gmm_cluster_center K ds (vectors g)"
    "lookup (args g) ''numtopicwords'' = Inr ntw" "as_count ntw = Inr nw"
    "lookup_str (args g) ''output'' = Inr outp"
    "simsdf g = Some (get_most_similar_words_and_docs cs (model g) 30 30)"
    "files g (outp @ ''/topics_single.csv'') =
       Some (TopicTuplesCSV (to_csv (fst (get_all_topics_from_centers cs ds (stopwordssss g) nw))
          (CHR '','') True))"
    "set_columns (unpack_topics (rows (fst (get_all_topics_from_centers cs ds (stopwordssss g) nw))))
       [Name ''top_words'', Name ''top_words_count''] = Inr t2"
    "df_join t2 (get_most_similar_words_and_docs cs (model g) 30 30) = Inr t3"
    "topics g = Some t3"
    "files g (outp @ ''/topics.csv'') = Some (TopicsCSV (to_csv t3 (CHR '','') True))"
    "add_gmm_probas_to_out texts (vectors g) clf1 = Inr (ds, K)"
  using assms
proof (rule main_run)
  fix a o0 m0 g0 outp sel vwc asg lab vs
  assume f: "args g0 = a" "model g0 = m0" "vectors g0 = docvecs m0"
    "stopwordssss g0 = fst (get_all_stopwords e (join_sp (take 100 (map fst (wv_vocab m0)))))"
    and o: "lookup_str a ''output'' = Inr outp"
    and lab: "label_block g0 (fst asg) (snd asg) = Inr lab"
    and asg: "add_gmm_probas_to_out (texts_of o0) (docvecs m0) (fst sel) = Inr asg"
    and st: "g = store g0 outp (fst sel) (snd sel) vwc (fst asg) (snd asg) lab"
  from lab obtain ntw nw t2 where
    l: "lookup (args g0) ''numtopicwords'' = Inr ntw" "as_count ntw = Inr nw"
    "fst lab = get_gmm_cluster_center (snd asg) (fst asg) (vectors g0)"
    "fst (snd lab) = fst (get_all_topics_from_centers (fst lab) (fst asg) (stopwordssss g0) nw)"
    "fst (snd (snd lab)) = get_most_similar_words_and_docs (fst lab) (model g0) 30 30"
    "set_columns (unpack_topics (rows (fst (snd lab))))
       [Name ''top_words'', Name ''top_words_count''] = Inr t2"
    "df_join t2 (fst (snd (snd lab))) = Inr (snd (snd (snd lab)))"
    by (rule label_block_Inr)
  show thesis
    by (rule that [of "fst asg" "snd asg" "fst lab" "fst sel" ntw nw outp t2 "snd (snd (snd lab))"
                    "texts_of o0"])
      (use f o l st asg in \<open>simp_all add: store_fields store_frame store_files\<close>)
qed


lemma assign_rows_Inr:
  "assign_rows mx tvs = Inr ds \<Longrightarrow>
     list_all2 (\<lambda>d tv. doc_text d = fst tv \<and> gmm_topics d = predict_proba mx (snd tv) \<and>
                  argmax (gmm_topics d) = Some (gmm_top_topic d, gmm_probas d)) ds tvs"
proof (induction tvs arbitrary: ds)
  case Nil
  then show ?case by simp
next
  case (Cons tv tvs)
  obtain t v where tv: "tv = (t, v)" by (cases tv)
  from Cons.prems tv obtain k p ds' where a: "argmax (predict_proba mx v) = Some (k, p)"
    and r: "assign_rows mx tvs = Inr ds'"
    and d: "ds = \<lparr>doc_text = t, gmm_topics = predict_proba mx v, gmm_top_topic = k,
                   gmm_probas = p\<rparr> # ds'"
    by (auto simp: and_then_Inr split: option.splits)
  from Cons.IH [OF r] a d tv show ?case by simp
qed

lemma add_gmm_probas_Inr:
  assumes "add_gmm_probas_to_out texts X mx = Inr (ds, K)"
  shows "K = n_components mx \<and> length ds = length X \<and>
         list_all2 (\<lambda>d v. gmm_topics d = predict_proba mx v \<and>
                      argmax (gmm_topics d) = Some (gmm_top_topic d, gmm_probas d)) ds X"
proof -
  from assms have len: "length texts = length X"
    and r: "assign_rows mx (zip texts X) = Inr ds" and k: "K = n_components mx"
    by (auto simp: add_gmm_probas_to_out_def and_then_Inr split: if_splits)
  from assign_rows_Inr [OF r] have l2: "list_all2 (\<lambda>d tv. doc_text d = fst tv \<and>
        gmm_topics d = predict_proba mx (snd tv) \<and>
        argmax (gmm_topics d) = Some (gmm_top_topic d, gmm_probas d)) ds (zip texts X)" .
  then have ld: "length ds = length X" using len by (simp add: list_all2_lengthD)
  have "list_all2 (\<lambda>d v. gmm_topics d = predict_proba mx v \<and>
                      argmax (gmm_topics d) = Some (gmm_top_topic d, gmm_probas d)) ds X"
    unfolding list_all2_conv_all_nth
  proof (intro conjI allI impI)
    show "length ds = length X" by (rule ld)
  next
    fix i assume i: "i < length ds"
    with l2 len ld have "gmm_topics (ds ! i) = predict_proba mx (snd (zip texts X ! i)) \<and>
        argmax (gmm_topics (ds ! i)) = Some (gmm_top_topic (ds ! i), gmm_probas (ds ! i))"
      by (auto simp: list_all2_conv_all_nth)
    with i len ld show "gmm_topics (ds ! i) = predict_proba mx (X ! i)"
      and "argmax (gmm_topics (ds ! i)) = Some (gmm_top_topic (ds ! i), gmm_probas (ds ! i))"
      by (elim conjE, simp)+
  qed
  with k ld show ?thesis by simp
qed

lemma length_centers: "length (get_gmm_cluster_center K ds X) = K"
  by (simp add: get_gmm_cluster_center_def)


section \<open>The topic table\<close>

lemma fold_max_ge: "(a :: nat) \<le> fold max xs a \<and> (\<forall>x\<in>set xs. x \<le> fold max xs a)"
proof (induction xs arbitrary: a)
  case Nil
  then show ?case by simp
next
  case (Cons x xs)
  from Cons.IH [of "max x a"] show ?case by auto
qed

lemma fold_max_const:
  "\<forall>x\<in>set xs. x = w \<Longrightarrow> fold max xs (a :: nat) = (if xs = [] then a else max w a)"
  by (induction xs arbitrary: a) (auto simp: max.assoc)

lemma ragged_rows:
  "length (rows (DataFrame_ragged pad rs)) = length rs"
  "r \<in> set (rows (DataFrame_ragged pad rs)) \<Longrightarrow> length r = fold max (map length rs) 0"
proof -
  show "length (rows (DataFrame_ragged pad rs)) = length rs"
    by (simp add: DataFrame_ragged_def Let_def)
  assume "r \<in> set (rows (DataFrame_ragged pad rs))"
  then obtain r0 where r0: "r0 \<in> set rs"
    and r: "r = r0 @ replicate (fold max (map length rs) 0 - length r0) pad"
    by (auto simp: DataFrame_ragged_def Let_def)
  from r0 fold_max_ge [of 0 "map length rs"] have "length r0 \<le> fold max (map length rs) 0"
    by simp
  with r show "length r = fold max (map length rs) 0" by simp
qed

lemma length_unpack_row: "length (unpack_row r) = (if r = [] then 0 else 2)"
  by (simp add: unpack_row_def Let_def)

lemma set_columns_unpack:
  assumes "set_columns (unpack_topics vals) [a, b] = Inr t2"
    and "\<forall>r\<in>set vals. length r = w"
  shows "0 < w \<and> vals \<noteq> [] \<and> t2 = \<lparr>columns = [a, b], rows = map unpack_row vals\<rparr>"
proof -
  let ?ls = "map length (map unpack_row vals)"
  from assms(2) have all: "\<forall>x\<in>set ?ls. x = (if w = 0 then 0 else 2)"
    by (auto simp: length_unpack_row)
  have fm: "fold max ?ls 0 = (if vals = [] then 0 else if w = 0 then 0 else 2)"
    using fold_max_const [OF all, of 0] by simp
  from assms(1) have two: "fold max ?ls 0 = 2"
    and t2: "t2 = (DataFrame_ragged NaN (map unpack_row vals))\<lparr>columns := [a, b]\<rparr>"
    by (auto simp: set_columns_def unpack_topics_def DataFrame_ragged_def Let_def
          split: if_splits)
  from fm two have w: "0 < w" and ne: "vals \<noteq> []" by (auto split: if_splits)
  from w assms(2) have "\<forall>r\<in>set vals. length (unpack_row r) = 2"
    by (auto simp: length_unpack_row)
  then have "map (\<lambda>r. r @ replicate (2 - length r) NaN) (map unpack_row vals) = map unpack_row vals"
    by (induction vals) auto
  with t2 two have "t2 = \<lparr>columns = [a, b], rows = map unpack_row vals\<rparr>"
    by (simp add: DataFrame_ragged_def Let_def)
  with w ne show ?thesis by simp
qed

lemma df_join_Inr:
  assumes "df_join l r = Inr t" and "length (rows r) = length (rows l)"
  shows "columns t = columns l @ columns r \<and> length (rows t) = length (rows l) \<and>
         (\<forall>i<length (rows l). rows t ! i = rows l ! i @ rows r ! i)"
proof -
  from assms(1) have t: "t = \<lparr>columns = columns l @ columns r,
                rows = map (\<lambda>(i, row).
                         row @ (if i < length (rows r) then rows r ! i
                                else replicate (length (columns r)) NaN))
                       (enumerate 0 (rows l))\<rparr>"
    by (auto simp: df_join_def split: if_splits)
  then show ?thesis using assms(2) by (simp add: nth_enumerate_eq)
qed

lemma sims_rows:
  "columns (get_most_similar_words_and_docs cs m nw nd) =
     [Name ''sim_words'', Name ''sim_words_prob'', Name ''sim_docs_indx'', Name ''sim_docs_prob'']"
  "length (rows (get_most_similar_words_and_docs cs m nw nd)) = length cs"
  "i < length cs \<Longrightarrow> rows (get_most_similar_words_and_docs cs m nw nd) ! i =
     [Words (map fst (most_similar_words m (cs ! i) nw)),
      Scores (map snd (most_similar_words m (cs ! i) nw)),
      Indices (map fst (most_similar_docs m (cs ! i) nd)),
      Scores (map snd (most_similar_docs m (cs ! i) nd))]"
  by (simp_all add: get_most_similar_words_and_docs_def Let_def)

lemma labeler_table:
  "length (rows (fst (get_all_topics_from_centers cs ds sw nw))) = length cs"
  "\<exists>w. \<forall>r\<in>set (rows (fst (get_all_topics_from_centers cs ds sw nw))). length r = w"
proof -
  show "length (rows (fst (get_all_topics_from_centers cs ds sw nw))) = length cs"
    by (simp add: get_all_topics_from_centers_def ragged_rows)
  show "\<exists>w. \<forall>r\<in>set (rows (fst (get_all_topics_from_centers cs ds sw nw))). length r = w"
    unfolding get_all_topics_from_centers_def fst_conv
    by (intro exI ballI) (erule ragged_rows(2))
qed


lemma zip_fst_snd_comp: "zip (map (fst \<circ> f) xs) (map (snd \<circ> f) xs) = map f xs"
  by (induction xs) simp_all

lemma main_topics_table:
  assumes "main e cl = Inr g"
  shows "\<exists>outp tf cs tuples.
     lookup_str (args g) ''output'' = Inr outp \<and> topics g = Some tf \<and> center g = Some cs \<and>
     files g (outp @ ''/topics_single.csv'') =
       Some (TopicTuplesCSV (to_csv tuples (CHR '','') True)) \<and>
     files g (outp @ ''/topics.csv'') =
       Some (TopicsCSV \<lparr>sep = CHR '','', header = Some (Name [] # columns tf),
               body = map (\<lambda>(i, r). Index i # map Value r) (enumerate 0 (rows tf))\<rparr>) \<and>
     columns tf = [Name ''top_words'', Name ''top_words_count'', Name ''sim_words'',
                   Name ''sim_words_prob'', Name ''sim_docs_indx'', Name ''sim_docs_prob''] \<and>
     length (rows tf) = length cs \<and> length (rows tuples) = length cs \<and>
     (\<forall>i<length cs. \<exists>tw tc sw sp di dp.
        rows tf ! i = [Words tw, Counts tc, Words sw, Scores sp, Indices di, Scores dp] \<and>
        zip tw tc = map (\<lambda>v. case v of None \<Rightarrow> ([], 0) | Some p \<Rightarrow> p) (rows tuples ! i) \<and>
        length tw = length tc \<and>
        zip sw sp = most_similar_words (model g) (cs ! i) 30 \<and> length sw = length sp \<and>
        zip di dp = most_similar_docs (model g) (cs ! i) 30 \<and> length di = length dp)"
  using assms
proof (rule main_labels)
  fix K ds cs clf1 outp ntw nw t2 t3 texts
  let ?tuples = "fst (get_all_topics_from_centers cs ds (stopwordssss g) nw)"
  let ?sims = "get_most_similar_words_and_docs cs (model g) 30 30"
  assume f: "center g = Some cs" "lookup_str (args g) ''output'' = Inr outp"
    "files g (outp @ ''/topics_single.csv'') =
       Some (TopicTuplesCSV (to_csv ?tuples (CHR '','') True))"
    "topics g = Some t3"
    "files g (outp @ ''/topics.csv'') = Some (TopicsCSV (to_csv t3 (CHR '','') True))"
    and sc: "set_columns (unpack_topics (rows ?tuples))
       [Name ''top_words'', Name ''top_words_count''] = Inr t2"
    and j: "df_join t2 ?sims = Inr t3"
  from labeler_table(2) [of cs ds "stopwordssss g" nw] obtain w where
    rect: "\<forall>r\<in>set (rows ?tuples). length r = w" by (elim exE)
  have lt: "length (rows ?tuples) = length cs" by (rule labeler_table(1))
  from set_columns_unpack [OF sc rect] have w: "0 < w"
    and t2: "t2 = \<lparr>columns = [Name ''top_words'', Name ''top_words_count''],
                   rows = map unpack_row (rows ?tuples)\<rparr>" by simp_all
  from t2 lt have l2: "length (rows ?sims) = length (rows t2)" by (simp add: sims_rows)
  from df_join_Inr [OF j l2] t2 lt have cols: "columns t3 =
      [Name ''top_words'', Name ''top_words_count'', Name ''sim_words'',
       Name ''sim_words_prob'', Name ''sim_docs_indx'', Name ''sim_docs_prob'']"
    and l3: "length (rows t3) = length cs"
    and rows3: "\<forall>i<length cs. rows t3 ! i = unpack_row (rows ?tuples ! i) @ rows ?sims ! i"
    by (simp_all add: sims_rows)
  have per_row: "\<forall>i<length cs. \<exists>tw tc sw sp di dp.
        rows t3 ! i = [Words tw, Counts tc, Words sw, Scores sp, Indices di, Scores dp] \<and>
        zip tw tc = map (\<lambda>v. case v of None \<Rightarrow> ([], 0) | Some p \<Rightarrow> p) (rows ?tuples ! i) \<and>
        length tw = length tc \<and>
        zip sw sp = most_similar_words (model g) (cs ! i) 30 \<and> length sw = length sp \<and>
        zip di dp = most_similar_docs (model g) (cs ! i) 30 \<and> length di = length dp"
  proof (intro allI impI)
    fix i assume i: "i < length cs"
    let ?pairs = "map (\<lambda>v. case v of None \<Rightarrow> ([], 0) | Some p \<Rightarrow> p) (rows ?tuples ! i)"
    from i lt rect w have "rows ?tuples ! i \<noteq> []" by (auto simp: in_set_conv_nth)
    then have u: "unpack_row (rows ?tuples ! i) = [Words (map fst ?pairs), Counts (map snd ?pairs)]"
      by (simp add: unpack_row_def Let_def)
    from rows3 i u have r: "rows t3 ! i =
        [Words (map fst ?pairs), Counts (map snd ?pairs),
         Words (map fst (most_similar_words (model g) (cs ! i) 30)),
         Scores (map snd (most_similar_words (model g) (cs ! i) 30)),
         Indices (map fst (most_similar_docs (model g) (cs ! i) 30)),
         Scores (map snd (most_similar_docs (model g) (cs ! i) 30))]"
      by (simp add: sims_rows)
    show "\<exists>tw tc sw sp di dp.
        rows t3 ! i = [Words tw, Counts tc, Words sw, Scores sp, Indices di, Scores dp] \<and>
        zip tw tc = map (\<lambda>v. case v of None \<Rightarrow> ([], 0) | Some p \<Rightarrow> p) (rows ?tuples ! i) \<and>
        length tw = length tc \<and>
        zip sw sp = most_similar_words (model g) (cs ! i) 30 \<and> length sw = length sp \<and>
        zip di dp = most_similar_docs (model g) (cs ! i) 30 \<and> length di = length dp"
      by (rule exI [of _ "map fst ?pairs"], rule exI [of _ "map snd ?pairs"],
          rule exI [of _ "map fst (most_similar_words (model g) (cs ! i) 30)"],
          rule exI [of _ "map snd (most_similar_words (model g) (cs ! i) 30)"],
          rule exI [of _ "map fst (most_similar_docs (model g) (cs ! i) 30)"],
          rule exI [of _ "map snd (most_similar_docs (model g) (cs ! i) 30)"])
         (simp add: r zip_map_fst_snd zip_fst_snd_comp)
  qed
  have csv: "files g (outp @ ''/topics.csv'') =
       Some (TopicsCSV \<lparr>sep = CHR '','', header = Some (Name [] # columns t3),
               body = map (\<lambda>(i, r). Index i # map Value r) (enumerate 0 (rows t3))\<rparr>)"
    using f(5) by (simp add: to_csv_def)
  show ?thesis
    by (rule exI [of _ outp], rule exI [of _ t3], rule exI [of _ cs], rule exI [of _ ?tuples])
       (intro conjI f(2) f(4) f(1) f(3) csv cols l3 lt per_row)
qed


section \<open>Pretrained models (C1)\<close>

text \<open>
  C1. The claim says that a run given \<^verbatim>\<open>--d2v-model\<close> or \<^verbatim>\<open>--gmm-model\<close> loads the
  persisted model instead of training. The script tests \<^verbatim>\<open>'d2v-model' not in args.keys()\<close>
  and \<^verbatim>\<open>'gmm-model' not in args.keys()\<close>, but argparse stores these options under
  \<^verbatim>\<open>d2v_model\<close> and \<^verbatim>\<open>gmm_model\<close>, so the hyphenated keys are never present: every run
  that completes has trained a new Doc2Vec model and fitted a new mixture, and has loaded
  nothing, whatever the command line.
\<close>

theorem main_always_trains_and_fits:
  "main e cl = Inr g \<Longrightarrow> events g = [TrainedDoc2Vec, FittedGMM]"
proof -
  assume "main e cl = Inr g"
  then obtain a l g0 where a: "parse_args cl = Inr a" and l: "load_block e a = Inr l"
    and g0: "vectors_block e a l = Inr g0" and g: "gmm_block e g0 = Inr g"
    by (rule main_Inr)
  from parse_args_no_hyphen_keys [OF a] have nk: "\<not> has_key a ''d2v-model''" by simp
  from load_block_train [OF nk l] obtain o0 m0 where l': "l = (o0, m0, None, None, [TrainedDoc2Vec])"
    by (elim exE) (rule that)
  from g0 l' have "vectors_block e a (o0, m0, None, None, [TrainedDoc2Vec]) = Inr g0" by simp
  then have "events g0 = [TrainedDoc2Vec]"
    by (rule vectors_block_Inr) simp
  with gmm_block_events [OF g] show ?thesis by simp
qed

theorem main_always_trains_and_fits_witness:
  "\<exists>g. main (toy_env toy_docs) cmd_pretrained = Inr g \<and> events g = [TrainedDoc2Vec, FittedGMM]"
proof -
  from toy_run_pretrained obtain g where g: "main (toy_env toy_docs) cmd_pretrained = Inr g"
    by (elim exE)
  from main_always_trains_and_fits [OF g] g show ?thesis by fast
qed

section \<open>The persisted document vectors (C7)\<close>

text \<open>
  C7, as amended. The claim says that every row of \<^verbatim>\<open>vectors.tsv\<close> holds only the
  document's vector components. The file is written by \<^verbatim>\<open>to_csv\<close> with
  \<^verbatim>\<open>header=False\<close> and the default \<^verbatim>\<open>index=True\<close>, as every table of the script is:
  it is tab-separated, has no header row and one row per document, and each row is the
  document's row index followed by its vector components.
\<close>

theorem vectors_tsv_rows:
  assumes "main e cl = Inr g"
  shows "\<exists>outp. lookup_str (args g) ''output'' = Inr outp \<and>
           files g (outp @ ''/vectors.tsv'') =
             Some (MatrixCSV \<lparr>sep = CHR 0x09, header = None,
                     body = map (\<lambda>(i, r). Index i # map Value r)
                              (enumerate 0 (docvecs (model g)))\<rparr>)"
  using main_vectors_file [OF assms] by fast

theorem vectors_tsv_rows_witness:
  "\<exists>g outp. main (toy_env toy_docs) cmd_english = Inr g \<and>
     lookup_str (args g) ''output'' = Inr outp \<and>
     files g (outp @ ''/vectors.tsv'') =
       Some (MatrixCSV \<lparr>sep = CHR 0x09, header = None,
               body = map (\<lambda>(i, r). Index i # map Value r)
                        (enumerate 0 (docvecs (model g)))\<rparr>)"
proof -
  from toy_run_english obtain g where g: "main (toy_env toy_docs) cmd_english = Inr g"
    by (elim exE)
  from vectors_tsv_rows [OF g] g show ?thesis by fast
qed

text \<open>
  On the toy corpus the rows of \<^verbatim>\<open>vectors.tsv\<close> start with the index fields 0, 1, 2, so
  they are not the bare rows of the matrix.
\<close>

theorem vectors_tsv_has_index_column:
  "\<exists>g outp f. main (toy_env toy_docs) cmd_english = Inr g \<and>
     lookup_str (args g) ''output'' = Inr outp \<and>
     files g (outp @ ''/vectors.tsv'') = Some (MatrixCSV f) \<and>
     body f \<noteq> map (map Value) (docvecs (model g)) \<and>
     body f = [[Index 0, Value 0, Value 0], [Index 1, Value (1 / 10), Value (1 / 10)],
               [Index 2, Value 5, Value 5]]"
proof -
  from toy_run_english obtain g where g: "main (toy_env toy_docs) cmd_english = Inr g"
    by (elim exE)
  from main_vectors_file [OF g] obtain outp where
    o: "lookup_str (args g) ''output'' = Inr outp"
    and f: "files g (outp @ ''/vectors.tsv'') =
             Some (MatrixCSV \<lparr>sep = CHR 0x09, header = None,
                     body = map (\<lambda>(i, r). Index i # map Value r)
                              (enumerate 0 (docvecs (model g)))\<rparr>)"
    by (elim exE conjE)
  have m: "docvecs (model g) = [[0, 0], [1 / 10, 1 / 10], [5, 5]]"
    by (simp add: toy_model_of_run [OF g] toy_model_def)
  show ?thesis
    apply (rule exI [of _ g], rule exI [of _ outp])
    apply (rule exI [of _ "\<lparr>sep = CHR 0x09, header = None,
                     body = map (\<lambda>(i, r). Index i # map Value r)
                              (enumerate 0 (docvecs (model g)))\<rparr>"])
    apply (simp add: g o f m enumerate_eq_zip upt_rec)
    done
qed


section \<open>The vectors with the fitted means appended (C9)\<close>

text \<open>
  C9. Every run that completes has fitted a mixture \<open>clf1\<close> and written
  \<^verbatim>\<open>vectors_with_center.tsv\<close>: tab-separated, no header, written with the row index like
  every table, and its values are the document vectors followed by the component means of
  the fitted mixture: the first \<open>n\<close> rows are the \<open>n\<close> document vectors and the remaining
  rows are the rows of \<^verbatim>\<open>clf.means_\<close>, one per component.
\<close>

theorem vectors_with_center_rows:
  assumes "main e cl = Inr g"
  shows "\<exists>outp clf1 f.
           lookup_str (args g) ''output'' = Inr outp \<and> clf g = Some clf1 \<and>
           files g (outp @ ''/vectors_with_center.tsv'') = Some (MatrixCSV f) \<and>
           sep f = CHR 0x09 \<and> header f = None \<and>
           body f = map (\<lambda>(i, r). Index i # map Value r) (enumerate 0 (vectors g @ means clf1)) \<and>
           csv_values f = vectors g @ means clf1 \<and>
           take (length (vectors g)) (csv_values f) = vectors g \<and>
           drop (length (vectors g)) (csv_values f) = means clf1 \<and>
           length (csv_values f) = length (vectors g) + length (means clf1)"
proof -
  from main_center_file [OF assms] obtain outp clf1 where
    o: "lookup_str (args g) ''output'' = Inr outp" and c: "clf g = Some clf1"
    and f: "files g (outp @ ''/vectors_with_center.tsv'') =
             Some (MatrixCSV \<lparr>sep = CHR 0x09, header = None,
                     body = map (\<lambda>(i, r). Index i # map Value r)
                              (enumerate 0 (vectors g @ means clf1))\<rparr>)"
    by (elim exE conjE)
  show ?thesis
    apply (rule exI [of _ outp], rule exI [of _ clf1])
    apply (rule exI [of _ "\<lparr>sep = CHR 0x09, header = None,
                     body = map (\<lambda>(i, r). Index i # map Value r)
                              (enumerate 0 (vectors g @ means clf1))\<rparr>"])
    apply (simp add: o c f csv_values_indexed)
    done
qed

theorem vectors_with_center_rows_witness:
  "\<exists>g. main (toy_env toy_docs) cmd_pretrained = Inr g \<and>
     (\<exists>outp clf1 f.
           lookup_str (args g) ''output'' = Inr outp \<and> clf g = Some clf1 \<and>
           files g (outp @ ''/vectors_with_center.tsv'') = Some (MatrixCSV f) \<and>
           sep f = CHR 0x09 \<and> header f = None \<and>
           body f = map (\<lambda>(i, r). Index i # map Value r) (enumerate 0 (vectors g @ means clf1)) \<and>
           csv_values f = vectors g @ means clf1 \<and>
           take (length (vectors g)) (csv_values f) = vectors g \<and>
           drop (length (vectors g)) (csv_values f) = means clf1 \<and>
           length (csv_values f) = length (vectors g) + length (means clf1))"
proof -
  from toy_run_pretrained obtain g where g: "main (toy_env toy_docs) cmd_pretrained = Inr g"
    by (elim exE)
  show ?thesis by (rule exI [of _ g]) (rule conjI [OF g vectors_with_center_rows [OF g]])
qed

section \<open>The stopwords depend on the vocabulary only (C10)\<close>

text \<open>
  C10. The stopwords of a run are the first result of the stopword generator on the first
  hundred vocabulary words of the run's embedding model, joined by blanks; the
  \<^verbatim>\<open>--language\<close> argument is passed to the Doc2Vec trainer only. So two runs (whatever
  their command lines, in particular two that differ in \<^verbatim>\<open>--language\<close> only) whose models
  have the same vocabulary use the same stopwords.
\<close>

theorem stopwords_from_vocabulary_only:
  assumes "main e cl1 = Inr g1" and "main e cl2 = Inr g2"
    and "map fst (wv_vocab (model g1)) = map fst (wv_vocab (model g2))"
  shows "stopwordssss g1 =
           fst (get_all_stopwords e (join_sp (take 100 (map fst (wv_vocab (model g1)))))) \<and>
         stopwordssss g1 = stopwordssss g2"
  using assms(3) main_stopwords [OF assms(1)] main_stopwords [OF assms(2)] by simp

theorem stopwords_from_vocabulary_only_witness:
  "\<exists>g1 g2. main (toy_env toy_docs) cmd_english = Inr g1 \<and>
     main (toy_env toy_docs) cmd_german = Inr g2 \<and>
     args g1 ''language'' = Some (VStr ''en'') \<and> args g2 ''language'' = Some (VStr ''de'') \<and>
     map fst (wv_vocab (model g1)) = map fst (wv_vocab (model g2)) \<and>
     stopwordssss g1 =
       fst (get_all_stopwords (toy_env toy_docs)
              (join_sp (take 100 (map fst (wv_vocab (model g1)))))) \<and>
     stopwordssss g1 = stopwordssss g2"
proof -
  from toy_run_english obtain g1 where g1: "main (toy_env toy_docs) cmd_english = Inr g1"
    by (elim exE)
  from toy_run_german obtain g2 where g2: "main (toy_env toy_docs) cmd_german = Inr g2"
    by (elim exE)
  have v: "map fst (wv_vocab (model g1)) = map fst (wv_vocab (model g2))"
    by (simp add: toy_model_of_run [OF g1] toy_model_of_run [OF g2])
  have "case parse_args cmd_english of Inl e \<Rightarrow> False
        | Inr a \<Rightarrow> a ''language'' = Some (VStr ''en'')"
    by code_simp
  with main_args [OF g1] have l1: "args g1 ''language'' = Some (VStr ''en'')" by simp
  have "case parse_args cmd_german of Inl e \<Rightarrow> False
        | Inr a \<Rightarrow> a ''language'' = Some (VStr ''de'')"
    by code_simp
  with main_args [OF g2] have l2: "args g2 ''language'' = Some (VStr ''de'')" by simp
  note t = stopwords_from_vocabulary_only [OF g1 g2 v]
  show ?thesis
    by (intro exI [of _ g1] exI [of _ g2] conjI g1 g2 l1 l2 v t [THEN conjunct1]
          t [THEN conjunct2])
qed

section \<open>The selected model has the lowest BIC (C2)\<close>

text \<open>
  C2. For every grid (a component range that \<^verbatim>\<open>range\<close> accepts, a list of covariance
  families, a restart count) and every matrix: as soon as one candidate of the grid is fitted
  successfully, model selection returns a model; that model is itself one of the fitted
  candidates of the grid, and its BIC is less than or equal to the BIC of every successfully
  fitted candidate. (The candidate \<open>m\<close> below is arbitrary.)
\<close>

theorem select_model_lowest_bic:
  assumes "py_range start stop step = Inr ks"
    and "cv \<in> set cvs" and "k \<in> set ks" and "r < restarts" and "fit X cv k r = Some m"
  shows "\<exists>best table.
           optimize_gmm_components fit X (start, stop, step) cvs restarts = Inr (Some best, table) \<and>
           bic_score best X \<le> bic_score m X \<and>
           (\<exists>cv' k' r'. cv' \<in> set cvs \<and> k' \<in> set ks \<and> r' < restarts \<and>
                         fit X cv' k' r' = Some best)"
proof -
  let ?cells = "List.map_filter (\<lambda>(fi, cv, k, c). map_option (\<lambda>m. (fi, k, m)) c)
                        (map (\<lambda>(fi, cv, k). (fi, cv, k, fit_cell fit X cv k restarts))
                           (grid_cells cvs ks))"
  from assms(2) obtain fi where fi: "fi < length cvs" "cvs ! fi = cv"
    by (auto simp: in_set_conv_nth)
  obtain c where c: "fit_cell fit X cv k restarts = Some c"
    using fit_cell_None [of fit X cv k restarts r] assms(4,5)
    by (cases "fit_cell fit X cv k restarts") auto
  from fit_cell_Some [OF c] assms(4,5) have cm: "bic_score c X \<le> bic_score m X" by blast
  from fi c assms(3) have mem: "(fi, k, c) \<in> set ?cells" by (simp add: in_fitted_cells)
  then obtain b where b: "best_cell X ?cells = Some b"
    using best_cell_None [of X ?cells] by (cases "best_cell X ?cells") auto
  obtain bf bk bm where b3: "b = (bf, bk, bm)" by (cases b)
  from best_cell_Some [OF b] mem b3 have bin: "(bf, bk, bm) \<in> set ?cells"
    and ble: "bic_score bm X \<le> bic_score c X" by auto
  from bin have bc: "bf < length cvs" "bk \<in> set ks" "fit_cell fit X (cvs ! bf) bk restarts = Some bm"
    by (simp_all add: in_fitted_cells)
  from fit_cell_Some [OF bc(3)] obtain r' where r': "r' < restarts" "fit X (cvs ! bf) bk r' = Some bm"
    by blast
  have "optimize_gmm_components fit X (start, stop, step) cvs restarts =
          Inr (Some bm, map (\<lambda>(fi, cv, k, c). (cv, k, map_option (\<lambda>m. bic_score m X) c))
                  (map (\<lambda>(fi, cv, k). (fi, cv, k, fit_cell fit X cv k restarts))
                     (grid_cells cvs ks)))"
    by (simp add: optimize_Inr [OF assms(1)] b b3)
  moreover from ble cm have "bic_score bm X \<le> bic_score m X" by simp
  moreover from bc r' have "\<exists>cv' k' r'. cv' \<in> set cvs \<and> k' \<in> set ks \<and> r' < restarts \<and>
                         fit X cv' k' r' = Some bm"
    by (intro exI [of _ "cvs ! bf"] exI [of _ bk] exI [of _ r']) simp
  ultimately show ?thesis by fast
qed


theorem select_model_lowest_bic_witness:
  "py_range 1 3 1 = Inr [1, 2] \<and>
   toy_fit [] ''diag'' 1 1 = Some (toy_gmm ''diag'' 1 [[17 / 10, 17 / 10]] 20) \<and>
   (\<exists>best table.
      optimize_gmm_components toy_fit [] (1, 3, 1) [''spherical'', ''diag''] 2
        = Inr (Some best, table) \<and>
      bic_score best [] \<le> bic_score (toy_gmm ''diag'' 1 [[17 / 10, 17 / 10]] 20) [] \<and>
      (\<exists>cv' k' r'. cv' \<in> set [''spherical'', ''diag''] \<and> k' \<in> set [1, 2] \<and> r' < 2 \<and>
                    toy_fit [] cv' k' r' = Some best))"
proof -
  have r: "py_range 1 3 1 = Inr [1, 2]"
    by code_simp
  have m: "toy_fit [] ''diag'' 1 1 = Some (toy_gmm ''diag'' 1 [[17 / 10, 17 / 10]] 20)"
    by (simp add: toy_fit_def)
  have c: "''diag'' \<in> set [''spherical'', ''diag'']" by simp
  have k: "(1 :: int) \<in> set [1, 2]" by simp
  have n: "(1 :: nat) < 2" by simp
  note t = select_model_lowest_bic [where fit = toy_fit and X = "[]", OF r c k n m]
  show ?thesis by (rule conjI [OF r conjI [OF m t]])
qed

section \<open>The topic centers are empirical means (C3)\<close>

text \<open>
  C3. In every run that completes (on a rectangular vector matrix, as a numpy array is), the
  \<^verbatim>\<open>center\<close> handed to both labelers is, for every topic \<open>t\<close> with at least one
  document, the arithmetic mean of the vectors of the documents whose hard assignment is
  \<open>t\<close>, coordinate by coordinate; the hard assignment of a document is the arg-max of the
  fitted mixture's probabilities for its vector. The similar words and documents and the
  frequent words are computed from these centers. The fitted component means are bound to
  \<^verbatim>\<open>gmm_center\<close> (and written with the vectors, see C9) and reach no label: a run whose fit
  reports any other means \<open>h\<close> yields the same centers, the same similarity table and the same
  topic table.
\<close>

theorem topic_centers_are_empirical_means:
  assumes "main e cl = Inr g" and "\<forall>v\<in>set (vectors g). length v = ncols (vectors g)"
  shows "\<exists>K ds cs clf1 outp nw.
     out g = Assigned ds \<and> GMM_N_COMPONENTS g = Some K \<and> center g = Some cs \<and>
     clf g = Some clf1 \<and> length cs = K \<and>
     list_all2 (\<lambda>d v. gmm_topics d = predict_proba clf1 v \<and>
                  argmax (gmm_topics d) = Some (gmm_top_topic d, gmm_probas d)) ds (vectors g) \<and>
     (\<forall>t<K. members t ds (vectors g) \<noteq> [] \<longrightarrow>
        (\<forall>j<ncols (vectors g).
           cs ! t ! j = (\<Sum>v\<leftarrow>members t ds (vectors g). v ! j)
                          / real (length (members t ds (vectors g))))) \<and>
     simsdf g = Some (get_most_similar_words_and_docs cs (model g) 30 30) \<and>
     files g (outp @ ''/topics_single.csv'') =
       Some (TopicTuplesCSV
               (to_csv (fst (get_all_topics_from_centers cs ds (stopwordssss g) nw))
                  (CHR '','') True)) \<and>
     gmm_center g = Some (means clf1) \<and>
     (\<forall>h g'. main (with_means h e) cl = Inr g' \<longrightarrow>
        center g' = Some cs \<and> simsdf g' = simsdf g \<and> topics g' = topics g)"
  using assms(1)
proof (rule main_labels)
  fix K ds cs clf1 outp ntw nw t2 t3 texts
  assume f: "out g = Assigned ds" "GMM_N_COMPONENTS g = Some K" "center g = Some cs"
    "clf g = Some clf1" "gmm_center g = Some (means clf1)"
    "cs = get_gmm_cluster_center K ds (vectors g)"
    "simsdf g = Some (get_most_similar_words_and_docs cs (model g) 30 30)"
    "files g (outp @ ''/topics_single.csv'') =
       Some (TopicTuplesCSV (to_csv (fst (get_all_topics_from_centers cs ds (stopwordssss g) nw))
          (CHR '','') True))"
    and a: "add_gmm_probas_to_out texts (vectors g) clf1 = Inr (ds, K)"
  have mean: "\<forall>t<K. members t ds (vectors g) \<noteq> [] \<longrightarrow>
        (\<forall>j<ncols (vectors g).
           cs ! t ! j = (\<Sum>v\<leftarrow>members t ds (vectors g). v ! j)
                          / real (length (members t ds (vectors g))))"
    using center_nth [OF assms(2)] f(6) by simp
  have indep: "\<forall>h g'. main (with_means h e) cl = Inr g' \<longrightarrow>
        center g' = Some cs \<and> simsdf g' = simsdf g \<and> topics g' = topics g"
    using main_with_means [OF assms(1)] f(3) by simp
  from add_gmm_probas_Inr [OF a] have asg: "list_all2 (\<lambda>d v. gmm_topics d = predict_proba clf1 v \<and>
                  argmax (gmm_topics d) = Some (gmm_top_topic d, gmm_probas d)) ds (vectors g)"
    by simp
  have len: "length cs = K" using f(6) by (simp add: length_centers)
  show ?thesis
    by (intro exI [of _ K] exI [of _ ds] exI [of _ cs] exI [of _ clf1] exI [of _ outp]
          exI [of _ nw] conjI f(1-5) f(7,8) len asg mean indep)
qed


theorem topic_centers_are_empirical_means_witness:
  "\<exists>g. main (toy_env toy_docs) cmd_english = Inr g \<and>
     center g = Some [[1 / 20, 1 / 20], [5, 5], [0, 0]] \<and>
     gmm_center g = Some [[1 / 10, 0], [5, 5], [2, 2]] \<and>
     (\<exists>K ds cs clf1 outp nw.
     out g = Assigned ds \<and> GMM_N_COMPONENTS g = Some K \<and> center g = Some cs \<and>
     clf g = Some clf1 \<and> length cs = K \<and>
     list_all2 (\<lambda>d v. gmm_topics d = predict_proba clf1 v \<and>
                  argmax (gmm_topics d) = Some (gmm_top_topic d, gmm_probas d)) ds (vectors g) \<and>
     (\<forall>t<K. members t ds (vectors g) \<noteq> [] \<longrightarrow>
        (\<forall>j<ncols (vectors g).
           cs ! t ! j = (\<Sum>v\<leftarrow>members t ds (vectors g). v ! j)
                          / real (length (members t ds (vectors g))))) \<and>
     simsdf g = Some (get_most_similar_words_and_docs cs (model g) 30 30) \<and>
     files g (outp @ ''/topics_single.csv'') =
       Some (TopicTuplesCSV
               (to_csv (fst (get_all_topics_from_centers cs ds (stopwordssss g) nw))
                  (CHR '','') True)) \<and>
     gmm_center g = Some (means clf1) \<and>
     (\<forall>h g'. main (with_means h (toy_env toy_docs)) cmd_english = Inr g' \<longrightarrow>
        center g' = Some cs \<and> simsdf g' = simsdf g \<and> topics g' = topics g))"
proof -
  from toy_run_english obtain g where g: "main (toy_env toy_docs) cmd_english = Inr g"
    by (elim exE)
  from toy_english_values g have c: "center g = Some [[1 / 20, 1 / 20], [5, 5], [0, 0]]"
    and m: "gmm_center g = Some [[1 / 10, 0], [5, 5], [2, 2]]" by simp_all
  from main_vectors_file [OF g] have "vectors g = docvecs (model g)" by (elim exE conjE)
  then have "vectors g = [[0, 0], [1 / 10, 1 / 10], [5, 5]]"
    by (simp add: toy_model_of_run [OF g] toy_model_def)
  then have r: "\<forall>v\<in>set (vectors g). length v = ncols (vectors g)" by (simp add: ncols_def)
  note t = topic_centers_are_empirical_means [OF g r]
  show ?thesis by (rule exI [of _ g]) (rule conjI [OF g conjI [OF c conjI [OF m t]]])
qed

section \<open>Topics without documents (C6)\<close>


section \<open>The columns of topics.csv (C4)\<close>

text \<open>
  C4, as amended. The table written to \<^verbatim>\<open>topics.csv\<close> has exactly the named columns
  \<^verbatim>\<open>top_words, top_words_count, sim_words, sim_words_prob, sim_docs_indx, sim_docs_prob\<close>
  in that order; in the file they are preceded by the index column that \<^verbatim>\<open>to_csv\<close>
  writes, whose header label is empty and whose field in every row is the topic's index. In
  every topic row the six fields are three pairs of parallel sequences aligned by rank: the
  words and counts of the labeler's tuples (None cells as the empty word with count 0), the
  most similar words and their scores, the most similar documents' indices and their
  scores. Sequences of different pairs need not have the same length.
\<close>

theorem topics_csv_columns:
  assumes "main e cl = Inr g"
  shows "\<exists>outp tf cs tuples.
     lookup_str (args g) ''output'' = Inr outp \<and> topics g = Some tf \<and> center g = Some cs \<and>
     files g (outp @ ''/topics_single.csv'') =
       Some (TopicTuplesCSV (to_csv tuples (CHR '','') True)) \<and>
     files g (outp @ ''/topics.csv'') =
       Some (TopicsCSV \<lparr>sep = CHR '','', header = Some (Name [] # columns tf),
               body = map (\<lambda>(i, r). Index i # map Value r) (enumerate 0 (rows tf))\<rparr>) \<and>
     columns tf = [Name ''top_words'', Name ''top_words_count'', Name ''sim_words'',
                   Name ''sim_words_prob'', Name ''sim_docs_indx'', Name ''sim_docs_prob''] \<and>
     length (rows tf) = length cs \<and> length (rows tuples) = length cs \<and>
     (\<forall>i<length cs. \<exists>tw tc sw sp di dp.
        rows tf ! i = [Words tw, Counts tc, Words sw, Scores sp, Indices di, Scores dp] \<and>
        zip tw tc = map (\<lambda>v. case v of None \<Rightarrow> ([], 0) | Some p \<Rightarrow> p) (rows tuples ! i) \<and>
        length tw = length tc \<and>
        zip sw sp = most_similar_words (model g) (cs ! i) 30 \<and> length sw = length sp \<and>
        zip di dp = most_similar_docs (model g) (cs ! i) 30 \<and> length di = length dp)"
  using assms by (rule main_topics_table)

theorem topics_csv_columns_witness:
  "\<exists>g. main (toy_env toy_docs) cmd_english = Inr g \<and>
     (\<exists>outp tf cs tuples.
       lookup_str (args g) ''output'' = Inr outp \<and> topics g = Some tf \<and> center g = Some cs \<and>
       files g (outp @ ''/topics_single.csv'') =
         Some (TopicTuplesCSV (to_csv tuples (CHR '','') True)) \<and>
       files g (outp @ ''/topics.csv'') =
         Some (TopicsCSV \<lparr>sep = CHR '','', header = Some (Name [] # columns tf),
                 body = map (\<lambda>(i, r). Index i # map Value r) (enumerate 0 (rows tf))\<rparr>) \<and>
       columns tf = [Name ''top_words'', Name ''top_words_count'', Name ''sim_words'',
                     Name ''sim_words_prob'', Name ''sim_docs_indx'', Name ''sim_docs_prob''] \<and>
       length (rows tf) = length cs \<and> length (rows tuples) = length cs \<and>
       (\<forall>i<length cs. \<exists>tw tc sw sp di dp.
          rows tf ! i = [Words tw, Counts tc, Words sw, Scores sp, Indices di, Scores dp] \<and>
          zip tw tc = map (\<lambda>v. case v of None \<Rightarrow> ([], 0) | Some p \<Rightarrow> p) (rows tuples ! i) \<and>
          length tw = length tc \<and>
          zip sw sp = most_similar_words (model g) (cs ! i) 30 \<and> length sw = length sp \<and>
          zip di dp = most_similar_docs (model g) (cs ! i) 30 \<and> length di = length dp))"
proof -
  from toy_run_english obtain g where g: "main (toy_env toy_docs) cmd_english = Inr g"
    by (elim exE)
  show ?thesis by (rule exI [of _ g]) (rule conjI [OF g topics_csv_columns [OF g]])
qed

text \<open>
  On the toy corpus the header of \<^verbatim>\<open>topics.csv\<close> starts with the empty index label, so it
  is not the list of the six names, and the first topic's fields have the lengths 2, 2, 5, 5,
  3 and 3, so the six fields are not parallel to each other.
\<close>

theorem topics_csv_index_and_lengths:
  "\<exists>g outp f tf.
     main (toy_env toy_docs) cmd_english = Inr g \<and>
     lookup_str (args g) ''output'' = Inr outp \<and>
     files g (outp @ ''/topics.csv'') = Some (TopicsCSV f) \<and>
     header f = Some [Name [], Name ''top_words'', Name ''top_words_count'', Name ''sim_words'',
                      Name ''sim_words_prob'', Name ''sim_docs_indx'', Name ''sim_docs_prob''] \<and>
     header f \<noteq> Some [Name ''top_words'', Name ''top_words_count'', Name ''sim_words'',
                      Name ''sim_words_prob'', Name ''sim_docs_indx'', Name ''sim_docs_prob''] \<and>
     topics g = Some tf \<and>
     rows tf ! 0 = [Words [''dog'', ''cat''], Counts [3, 2],
                    Words [''car'', ''road'', ''the'', ''dog'', ''cat''],
                    Scores [1 / 2, 9 / 20, 1 / 10, 1 / 100, 0], Indices [2, 1, 0],
                    Scores [1 / 2, 1 / 100, 0]]"
proof -
  from toy_run_english obtain g where g: "main (toy_env toy_docs) cmd_english = Inr g"
    by (elim exE)
  from main_topics_table [OF g] obtain outp tf where
    o: "lookup_str (args g) ''output'' = Inr outp" and t: "topics g = Some tf"
    and f: "files g (outp @ ''/topics.csv'') =
       Some (TopicsCSV \<lparr>sep = CHR '','', header = Some (Name [] # columns tf),
               body = map (\<lambda>(i, r). Index i # map Value r) (enumerate 0 (rows tf))\<rparr>)"
    and c: "columns tf = [Name ''top_words'', Name ''top_words_count'', Name ''sim_words'',
                   Name ''sim_words_prob'', Name ''sim_docs_indx'', Name ''sim_docs_prob'']"
    by (elim exE conjE)
  from toy_english_values g t have r: "rows tf ! 0 = [Words [''dog'', ''cat''], Counts [3, 2],
                    Words [''car'', ''road'', ''the'', ''dog'', ''cat''],
                    Scores [1 / 2, 9 / 20, 1 / 10, 1 / 100, 0], Indices [2, 1, 0],
                    Scores [1 / 2, 1 / 100, 0]]"
    by auto
  show ?thesis
    by (rule exI [of _ g], rule exI [of _ outp],
        rule exI [of _ "\<lparr>sep = CHR '','', header = Some (Name [] # columns tf),
               body = map (\<lambda>(i, r). Index i # map Value r) (enumerate 0 (rows tf))\<rparr>"],
        rule exI [of _ tf])
       (simp add: g o t f c r)
qed

end
